theory Spec2Isabelle
  imports Complex_Main
begin

section \<open>Structural relaxation driver and trajectory observer (matcalc/relaxation.py)\<close>

text \<open>
  The module is a thin adapter: it glues a structure adaptor, a calculator and an optimizer of an
  atomistic toolkit together. The toolkit is not part of the repository, so its operations are
  parameters of the model (the record \<open>env\<close> below); everything the module itself does
  (the registry lookup, the observer's lists, the order of the calls in \<open>calc\<close>, the
  redirection of the output stream, the pickled dictionary) is written out.

  Python exceptions are values of the type \<open>error\<close>; a function that can raise returns
  \<open>error + 'x\<close> (\<open>Inl\<close> is the raise). A function that mutates an object returns
  the object as it is after the call, also when it raises: Python keeps the mutations made
  before the exception.
\<close>

subsection \<open>Errors and values\<close>

datatype error =
    ValueError string
  | TypeError string
  | IndexError string
  | AttributeError string
  | OSError string
  | ExternalError string  \<comment> \<open>raised inside the toolkit: conversion, evaluation, optimizer\<close>

text \<open>A numeric array of the toolkit, of one or two dimensions; a Python float is a scalar.\<close>

datatype ndarray = Array1 "real list" | Array2 "real list list"

text \<open>The values of the dictionary that \<open>save\<close> pickles.\<close>

datatype pyvalue = FloatList "real list" | ArrayList "ndarray list" | IntArray "int list"

text \<open>
  A structure object of the caller's toolkit: its class (the plain \<open>Structure\<close>, a subclass
  of it, or another representation the adaptor accepts) and its content.
\<close>

datatype 's structure_obj = StructureObj (class_of: string) (content_of: 's)

text \<open>The objects the module handles by reference: the caller's structure, the native atoms.\<close>

datatype ('s, 'a) pyobj = Structure "'s structure_obj" | Atoms 'a

definition heap_lookup :: "'x list \<Rightarrow> nat \<Rightarrow> 'x option" where
  "heap_lookup h r = (if r < length h then Some (h ! r) else None)"

text \<open>
  Following a reference that is expected to hold native atoms. Python is duck-typed: calling an
  atoms method on anything else raises \<open>AttributeError\<close>.
\<close>

definition the_atoms :: "('s, 'a) pyobj list \<Rightarrow> nat \<Rightarrow> error + 'a" where
  "the_atoms h r =
     (case heap_lookup h r of
        Some (Atoms a) \<Rightarrow> Inr a
      | _ \<Rightarrow> Inl (AttributeError ''object is not an Atoms''))"

subsection \<open>The optimizer registry\<close>

text \<open>
  The eight optimizer classes of the registry, and a class (or any callable) the caller supplies.
\<close>

datatype 'o optimizer_class =
    FIRE | BFGS | LBFGS | LBFGSLineSearch | MDMin | SciPyFminCG | SciPyFminBFGS | BFGSLineSearch
  | UserOptimizer 'o

definition OPTIMIZERS :: "(string \<times> 'o optimizer_class) list" where
  "OPTIMIZERS =
     [(''FIRE'', FIRE),
      (''BFGS'', BFGS),
      (''LBFGS'', LBFGS),
      (''LBFGSLineSearch'', LBFGSLineSearch),
      (''MDMin'', MDMin),
      (''SciPyFminCG'', SciPyFminCG),
      (''SciPyFminBFGS'', SciPyFminBFGS),
      (''BFGSLineSearch'', BFGSLineSearch)]"

text \<open>What an optimizer does while it runs, as far as the module can observe it.\<close>

datatype 'a opt_action =
    Move 'a          \<comment> \<open>the optimizer writes a new geometry into the atoms it was given\<close>
  | Emit string      \<comment> \<open>progress text written to the current \<open>sys.stdout\<close>\<close>
  | Observe          \<comment> \<open>the attached observer is due (an interval tick) and is called\<close>
  | Raise error      \<comment> \<open>the optimizer raises\<close>

subsection \<open>The toolkit, as parameters\<close>

record lattice =
  lat_a :: real
  lat_b :: real
  lat_c :: real
  lat_alpha :: real
  lat_beta :: real
  lat_gamma :: real
  lat_volume :: real

text \<open>
  \<open>'s\<close> is the content of a structure, \<open>'a\<close> the native atoms, \<open>'c\<close> the
  calculator, \<open>'o\<close> a caller-supplied optimizer class, \<open>'i\<close> an optimizer instance and
  \<open>'b\<close> a serialized blob. Energy, forces and stress come from the calculator and can raise;
  positions, cell and atomic numbers are plain reads of the atoms.
\<close>

record ('s, 'a, 'c, 'o, 'i, 'b) env =
  to_atoms :: "'s structure_obj \<Rightarrow> error + 'a"   \<comment> \<open>\<open>AseAtomsAdaptor.get_atoms\<close>\<close>
  to_structure :: "'a \<Rightarrow> error + 's"           \<comment> \<open>the content \<open>get_structure\<close> computes\<close>
  lattice_of :: "'s \<Rightarrow> lattice"                \<comment> \<open>\<open>final_structure.lattice\<close>\<close>
  with_calculator :: "'a \<Rightarrow> 'c \<Rightarrow> 'a"           \<comment> \<open>the atoms after \<open>set_calculator\<close>\<close>
  get_potential_energy :: "'a \<Rightarrow> error + real"
  get_forces :: "'a \<Rightarrow> error + ndarray"
  get_stress :: "'a \<Rightarrow> error + ndarray"
  get_positions :: "'a \<Rightarrow> ndarray"
  get_cell :: "'a \<Rightarrow> ndarray"
  get_atomic_numbers :: "'a \<Rightarrow> int list"
  atoms_len :: "'a \<Rightarrow> nat"                     \<comment> \<open>\<open>len(atoms)\<close>, the atom count\<close>
  opt_new :: "'o optimizer_class \<Rightarrow> 'a \<Rightarrow> error + 'i"    \<comment> \<open>\<open>opt_class(atoms)\<close>\<close>
  opt_attach :: "'i \<Rightarrow> int \<Rightarrow> 'i"               \<comment> \<open>\<open>optimizer.attach(obs, interval=...)\<close>\<close>
  opt_run :: "'i \<Rightarrow> real \<Rightarrow> int \<Rightarrow> 'a \<Rightarrow> 'a opt_action list"
                                               \<comment> \<open>\<open>optimizer.run(fmax=..., steps=...)\<close>\<close>
  pickle_dump :: "(string \<times> pyvalue) list \<Rightarrow> 'b"
  pickle_load :: "'b \<Rightarrow> (string \<times> pyvalue) list option"

subsection \<open>TrajectoryObserver\<close>

text \<open>
  \<open>atoms\<close> is a reference: the observer, the cell filter and the optimizer share one atoms
  object, which the optimizer moves between two captures.
\<close>

record trajectory_observer =
  atoms :: nat
  energies :: "real list"
  forces :: "ndarray list"
  stresses :: "ndarray list"
  atom_positions :: "ndarray list"
  cells :: "ndarray list"

definition TrajectoryObserver_init :: "nat \<Rightarrow> trajectory_observer" where
  "TrajectoryObserver_init r =
     \<lparr>atoms = r, energies = [], forces = [], stresses = [], atom_positions = [], cells = []\<rparr>"

text \<open>
  \<open>__call__\<close>: five appends, in the order of the source. Each calculator read happens just
  before its append, so a read that raises leaves the earlier appends in place.
\<close>

definition TrajectoryObserver_call ::
  "('s, 'a, 'c, 'o, 'i, 'b) env \<Rightarrow> ('s, 'a) pyobj list \<Rightarrow> trajectory_observer
     \<Rightarrow> (error + unit) \<times> trajectory_observer" where
  "TrajectoryObserver_call env h obs =
     (case the_atoms h (atoms obs) of
        Inl e \<Rightarrow> (Inl e, obs)
      | Inr a \<Rightarrow>
     (case get_potential_energy env a of
        Inl e \<Rightarrow> (Inl e, obs)
      | Inr en \<Rightarrow>
     (let obs1 = obs\<lparr>energies := energies obs @ [en]\<rparr> in
      case get_forces env a of
        Inl e \<Rightarrow> (Inl e, obs1)
      | Inr f \<Rightarrow>
     (let obs2 = obs1\<lparr>forces := forces obs1 @ [f]\<rparr> in
      case get_stress env a of
        Inl e \<Rightarrow> (Inl e, obs2)
      | Inr s \<Rightarrow>
     (let obs3 = obs2\<lparr>stresses := stresses obs2 @ [s]\<rparr>;
          obs4 = obs3\<lparr>atom_positions := atom_positions obs3 @ [get_positions env a]\<rparr>;
          obs5 = obs4\<lparr>cells := cells obs4 @ [get_cell env a]\<rparr>
      in (Inr (), obs5))))))"

text \<open>Python list indexing by an integer: a negative index counts from the end.\<close>

definition list_getitem :: "'x list \<Rightarrow> int \<Rightarrow> error + 'x" where
  "list_getitem xs i =
     (let n = int (length xs); j = (if i < 0 then i + n else i)
      in if 0 \<le> j \<and> j < n then Inr (xs ! nat j)
         else Inl (IndexError ''list index out of range''))"

text \<open>
  \<open>__getitem__\<close> for an integer item: the tuple is built left to right, so the first list
  that has no such index raises.
\<close>

definition TrajectoryObserver_getitem ::
  "trajectory_observer \<Rightarrow> int \<Rightarrow> error + (real \<times> ndarray \<times> ndarray \<times> ndarray \<times> ndarray)" where
  "TrajectoryObserver_getitem obs item =
     (case list_getitem (energies obs) item of Inl e \<Rightarrow> Inl e | Inr en \<Rightarrow>
      case list_getitem (forces obs) item of Inl e \<Rightarrow> Inl e | Inr f \<Rightarrow>
      case list_getitem (stresses obs) item of Inl e \<Rightarrow> Inl e | Inr s \<Rightarrow>
      case list_getitem (cells obs) item of Inl e \<Rightarrow> Inl e | Inr c \<Rightarrow>
      case list_getitem (atom_positions obs) item of Inl e \<Rightarrow> Inl e | Inr p \<Rightarrow>
        Inr (en, f, s, c, p))"

definition TrajectoryObserver_len :: "trajectory_observer \<Rightarrow> nat" where
  "TrajectoryObserver_len obs = length (energies obs)"

text \<open>A trajectory record in the sense of the data model: a sequence of whole snapshots.\<close>

definition record_ok :: "trajectory_observer \<Rightarrow> bool" where
  "record_ok obs \<longleftrightarrow>
     length (forces obs) = length (energies obs) \<and>
     length (stresses obs) = length (energies obs) \<and>
     length (atom_positions obs) = length (energies obs) \<and>
     length (cells obs) = length (energies obs)"

subsection \<open>The world the driver acts on\<close>

text \<open>
  \<open>sys.stdout\<close> is either the console or a \<open>StringIO\<close> with the text written to it so far.
\<close>

datatype sink = Console | StringIO "string list"

text \<open>
  The calls the claims speak about are logged as they happen; the log is what a spy on the toolkit
  would record, the code does not read it.
\<close>

datatype event =
    GetAtoms | SetCalculator | RunBegin | Capture | RunEnd | FileWrite string | GetStructure

record ('s, 'a, 'b) world =
  heap :: "('s, 'a) pyobj list"          \<comment> \<open>objects by reference; a new object is appended\<close>
  sys_stdout :: sink
  console :: "string list"               \<comment> \<open>the text that reached the console\<close>
  files :: "string \<rightharpoonup> 'b"
  writable :: "string \<Rightarrow> bool"            \<comment> \<open>whether \<open>open(path, "wb")\<close> succeeds\<close>
  trace :: "event list"

definition log_event :: "event \<Rightarrow> ('s, 'a, 'b) world \<Rightarrow> ('s, 'a, 'b) world" where
  "log_event ev w = w\<lparr>trace := trace w @ [ev]\<rparr>"

definition write_stdout :: "string \<Rightarrow> ('s, 'a, 'b) world \<Rightarrow> ('s, 'a, 'b) world" where
  "write_stdout t w =
     (case sys_stdout w of
        Console \<Rightarrow> w\<lparr>console := console w @ [t]\<rparr>
      | StringIO buf \<Rightarrow> w\<lparr>sys_stdout := StringIO (buf @ [t])\<rparr>)"

text \<open>
  \<open>with contextlib.redirect_stdout(stream): body\<close>. The old target is put back when the body
  ends, whether it returns or raises; the stream is a local of \<open>calc\<close> and is dropped with it.
\<close>

definition redirect_stdout ::
  "sink \<Rightarrow> (('s, 'a, 'b) world \<Rightarrow> (error + 'x) \<times> ('s, 'a, 'b) world)
     \<Rightarrow> ('s, 'a, 'b) world \<Rightarrow> (error + 'x) \<times> ('s, 'a, 'b) world" where
  "redirect_stdout stream body w =
     (let old = sys_stdout w;
          (r, w') = body (w\<lparr>sys_stdout := stream\<rparr>)
      in (r, w'\<lparr>sys_stdout := old\<rparr>))"

subsection \<open>TrajectoryObserver.save\<close>

definition save ::
  "('s, 'a, 'c, 'o, 'i, 'b) env \<Rightarrow> trajectory_observer \<Rightarrow> string \<Rightarrow> ('s, 'a, 'b) world
     \<Rightarrow> (error + unit) \<times> ('s, 'a, 'b) world" where
  "save env obs filename w =
     (case the_atoms (heap w) (atoms obs) of
        Inl e \<Rightarrow> (Inl e, w)
      | Inr a \<Rightarrow>
     (let out = [(''energy'', FloatList (energies obs)),
                 (''forces'', ArrayList (forces obs)),
                 (''stresses'', ArrayList (stresses obs)),
                 (''atom_positions'', ArrayList (atom_positions obs)),
                 (''cell'', ArrayList (cells obs)),
                 (''atomic_number'', IntArray (get_atomic_numbers env a))]
      in if writable w filename
         then (Inr (), log_event (FileWrite filename)
                         (w\<lparr>files := (files w)(filename \<mapsto> pickle_dump env out)\<rparr>))
         else (Inl (OSError filename), w)))"

text \<open>
  Modelled from the spec: reading a persisted record back "through the same serialization
  scheme". The module has no reader; this is \<open>pickle.load\<close> on the file at the path.
\<close>

definition read_back ::
  "('s, 'a, 'c, 'o, 'i, 'b) env \<Rightarrow> ('s, 'a, 'b) world \<Rightarrow> string \<Rightarrow> (string \<times> pyvalue) list option" where
  "read_back env w path = (case files w path of None \<Rightarrow> None | Some blob \<Rightarrow> pickle_load env blob)"

subsection \<open>RelaxCalc\<close>

text \<open>The \<open>optimizer\<close> argument of the constructor: a name, \<open>None\<close>, or an optimizer class.\<close>

datatype 'o optimizer_arg = Name string | NoneArg | Obj 'o

text \<open>\<open>opt_class = None\<close> is Python's \<open>None\<close>, which \<open>OPTIMIZERS.get(name, None)\<close> can return.\<close>

record ('c, 'o) relax_calc =
  calculator :: 'c
  opt_class :: "'o optimizer_class option"
  fmax :: real
  steps :: int
  traj_file :: "string option"
  interval :: int

definition RelaxCalc_init ::
  "'c \<Rightarrow> 'o optimizer_arg \<Rightarrow> real \<Rightarrow> int \<Rightarrow> string option \<Rightarrow> int \<Rightarrow> error + ('c, 'o) relax_calc" where
  "RelaxCalc_init calculator' optimizer fmax' steps' traj_file' interval' =
     (case (case optimizer of
              Name name \<Rightarrow> Inr (map_of OPTIMIZERS name)
            | NoneArg \<Rightarrow> Inl (ValueError ''Optimizer cannot be None'')
            | Obj cls \<Rightarrow> Inr (Some (UserOptimizer cls))) of
        Inl e \<Rightarrow> Inl e
      | Inr optimizer_obj \<Rightarrow>
          Inr \<lparr>calculator = calculator', opt_class = optimizer_obj, fmax = fmax', steps = steps',
               traj_file = traj_file', interval = interval'\<rparr>)"

text \<open>\<open>ase_adaptor.get_atoms(structure)\<close>: a new atoms object, made from the structure.\<close>

definition get_atoms ::
  "('s, 'a, 'c, 'o, 'i, 'b) env \<Rightarrow> nat \<Rightarrow> ('s, 'a, 'b) world \<Rightarrow> (error + nat) \<times> ('s, 'a, 'b) world" where
  "get_atoms env structure w =
     (let w1 = log_event GetAtoms w in
      case heap_lookup (heap w) structure of
        Some (Structure s) \<Rightarrow>
          (case to_atoms env s of
             Inl e \<Rightarrow> (Inl e, w1)
           | Inr a \<Rightarrow> (Inr (length (heap w)), w1\<lparr>heap := heap w @ [Atoms a]\<rparr>))
      | _ \<Rightarrow> (Inl (AttributeError ''object is not a Structure''), w1))"

text \<open>\<open>atoms.set_calculator(calculator)\<close>: mutates the atoms object.\<close>

definition set_calculator ::
  "('s, 'a, 'c, 'o, 'i, 'b) env \<Rightarrow> nat \<Rightarrow> 'c \<Rightarrow> ('s, 'a, 'b) world \<Rightarrow> (error + unit) \<times> ('s, 'a, 'b) world" where
  "set_calculator env r c w =
     (case the_atoms (heap w) r of
        Inl e \<Rightarrow> (Inl e, w)
      | Inr a \<Rightarrow>
          (Inr (), log_event SetCalculator (w\<lparr>heap := (heap w)[r := Atoms (with_calculator env a c)]\<rparr>)))"

text \<open>\<open>ExpCellFilter(atoms)\<close> wraps a reference to the atoms; \<open>flt.atoms\<close> gives it back.\<close>

datatype exp_cell_filter = ExpCellFilter (filter_atoms: nat)

text \<open>
  What \<open>optimizer.run\<close> does to the world: it moves the atoms it was given, writes progress text to
  the current \<open>sys.stdout\<close>, and calls the attached observer. An exception of the observer is not
  caught by the optimizer.
\<close>

fun exec_actions ::
  "('s, 'a, 'c, 'o, 'i, 'b) env \<Rightarrow> nat \<Rightarrow> 'a opt_action list \<Rightarrow> trajectory_observer \<Rightarrow> ('s, 'a, 'b) world
     \<Rightarrow> (error + unit) \<times> trajectory_observer \<times> ('s, 'a, 'b) world" where
  "exec_actions env r [] obs w = (Inr (), obs, w)"
| "exec_actions env r (Move a # acts) obs w =
     exec_actions env r acts obs (w\<lparr>heap := (heap w)[r := Atoms a]\<rparr>)"
| "exec_actions env r (Emit t # acts) obs w =
     exec_actions env r acts obs (write_stdout t w)"
| "exec_actions env r (Observe # acts) obs w =
     (case TrajectoryObserver_call env (heap w) obs of
        (Inl e, obs') \<Rightarrow> (Inl e, obs', log_event Capture w)
      | (Inr u, obs') \<Rightarrow> exec_actions env r acts obs' (log_event Capture w))"
| "exec_actions env r (Raise e # acts) obs w = (Inl e, obs, w)"

definition Optimizer_run ::
  "('s, 'a, 'c, 'o, 'i, 'b) env \<Rightarrow> 'i \<Rightarrow> real \<Rightarrow> int \<Rightarrow> exp_cell_filter \<Rightarrow> trajectory_observer
     \<Rightarrow> ('s, 'a, 'b) world \<Rightarrow> (error + unit) \<times> trajectory_observer \<times> ('s, 'a, 'b) world" where
  "Optimizer_run env opt fmax' steps' flt obs w =
     (case the_atoms (heap w) (filter_atoms flt) of
        Inl e \<Rightarrow> (Inl e, obs, w)
      | Inr a \<Rightarrow>
          (case exec_actions env (filter_atoms flt) (opt_run env opt fmax' steps' a) obs
                  (log_event RunBegin w) of
             (Inl e, obs', w') \<Rightarrow> (Inl e, obs', w')
           | (Inr u, obs', w') \<Rightarrow> (Inr (), obs', log_event RunEnd w')))"

text \<open>The body of the \<open>with\<close> statement of \<open>calc\<close>; \<open>r\<close> is the reference to the atoms.\<close>

definition relax_block ::
  "('s, 'a, 'c, 'o, 'i, 'b) env \<Rightarrow> ('c, 'o) relax_calc \<Rightarrow> nat \<Rightarrow> ('s, 'a, 'b) world
     \<Rightarrow> (error + trajectory_observer \<times> exp_cell_filter) \<times> ('s, 'a, 'b) world" where
  "relax_block env self r w =
     (let obs = TrajectoryObserver_init r;
          flt = ExpCellFilter r
      in case opt_class self of
           None \<Rightarrow> (Inl (TypeError ''NoneType object is not callable''), w)
         | Some cls \<Rightarrow>
      (case the_atoms (heap w) (filter_atoms flt) of
         Inl e \<Rightarrow> (Inl e, w)
       | Inr a \<Rightarrow>
      (case opt_new env cls a of
         Inl e \<Rightarrow> (Inl e, w)
       | Inr opt0 \<Rightarrow>
      (let optimizer = opt_attach env opt0 (interval self) in
       case Optimizer_run env optimizer (fmax self) (steps self) flt obs w of
         (Inl e, obs1, w1) \<Rightarrow> (Inl e, w1)
       | (Inr u, obs1, w1) \<Rightarrow>
      (case TrajectoryObserver_call env (heap w1) obs1 of
         (Inl e, obs2) \<Rightarrow> (Inl e, log_event Capture w1)
       | (Inr u', obs2) \<Rightarrow> (Inr (obs2, flt), log_event Capture w1))))))"

text \<open>
  \<open>ase_adaptor.get_structure(atoms)\<close>: a new structure, made from the atoms. The call passes
  no class, so the adaptor builds an object of its default class, the plain \<open>Structure\<close>,
  whatever the class of the structure that \<open>calc\<close> was given.
\<close>

definition get_structure ::
  "('s, 'a, 'c, 'o, 'i, 'b) env \<Rightarrow> nat \<Rightarrow> ('s, 'a, 'b) world
     \<Rightarrow> (error + 's structure_obj) \<times> ('s, 'a, 'b) world" where
  "get_structure env r w =
     (let w1 = log_event GetStructure w in
      case the_atoms (heap w) r of
        Inl e \<Rightarrow> (Inl e, w1)
      | Inr a \<Rightarrow>
          (case to_structure env a of
             Inl e \<Rightarrow> (Inl e, w1)
           | Inr s \<Rightarrow> (Inr (StructureObj ''Structure'' s), w1)))"

text \<open>The values of the result dictionary; the dictionary keeps the order of the literal.\<close>

datatype 's result_value = VStructure "'s structure_obj" | VFloat real

definition calc ::
  "('s, 'a, 'c, 'o, 'i, 'b) env \<Rightarrow> ('c, 'o) relax_calc \<Rightarrow> nat \<Rightarrow> ('s, 'a, 'b) world
     \<Rightarrow> (error + (string \<times> 's result_value) list) \<times> ('s, 'a, 'b) world" where
  "calc env self structure w =
     (case get_atoms env structure w of
        (Inl e, w1) \<Rightarrow> (Inl e, w1)
      | (Inr r, w1) \<Rightarrow>
     (case set_calculator env r (calculator self) w1 of
        (Inl e, w2) \<Rightarrow> (Inl e, w2)
      | (Inr u, w2) \<Rightarrow>
     (let stream = StringIO [] in
      case redirect_stdout stream (relax_block env self r) w2 of
        (Inl e, w3) \<Rightarrow> (Inl e, w3)
      | (Inr (obs, flt), w3) \<Rightarrow>
     (case (case traj_file self of
              None \<Rightarrow> (Inr (), w3)
            | Some filename \<Rightarrow> save env obs filename w3) of
        (Inl e, w4) \<Rightarrow> (Inl e, w4)
      | (Inr u', w4) \<Rightarrow>
     (case get_structure env (filter_atoms flt) w4 of
        (Inl e, w5) \<Rightarrow> (Inl e, w5)
      | (Inr final_structure, w5) \<Rightarrow>
     (let lattice = lattice_of env (content_of final_structure)
      in (Inr [(''final_structure'', VStructure final_structure),
               (''a'', VFloat (lat_a lattice)),
               (''b'', VFloat (lat_b lattice)),
               (''c'', VFloat (lat_c lattice)),
               (''alpha'', VFloat (lat_alpha lattice)),
               (''beta'', VFloat (lat_beta lattice)),
               (''gamma'', VFloat (lat_gamma lattice)),
               (''volume'', VFloat (lat_volume lattice))], w5)))))))"

text \<open>
  The driver as a caller uses it: \<open>RelaxCalc(calculator, optimizer, ...).calc(structure)\<close>.
\<close>

definition relax ::
  "('s, 'a, 'c, 'o, 'i, 'b) env \<Rightarrow> 'c \<Rightarrow> 'o optimizer_arg \<Rightarrow> real \<Rightarrow> int \<Rightarrow> string option \<Rightarrow> int
     \<Rightarrow> nat \<Rightarrow> ('s, 'a, 'b) world \<Rightarrow> (error + (string \<times> 's result_value) list) \<times> ('s, 'a, 'b) world" where
  "relax env calculator' optimizer fmax' steps' traj_file' interval' structure w =
     (case RelaxCalc_init calculator' optimizer fmax' steps' traj_file' interval' of
        Inl e \<Rightarrow> (Inl e, w)
      | Inr self \<Rightarrow> calc env self structure w)"

subsection \<open>Vocabulary of the properties\<close>

text \<open>The paths written to, in order, among the events of a log.\<close>

fun file_writes :: "event list \<Rightarrow> string list" where
  "file_writes [] = []"
| "file_writes (FileWrite p # evs) = p # file_writes evs"
| "file_writes (ev # evs) = file_writes evs"

text \<open>
  The dictionary of a trajectory record: the five sequences of an observer under the keys of
  \<open>save\<close>, and the atomic numbers of its atoms.
\<close>

definition trajectory_dict :: "trajectory_observer \<Rightarrow> int list \<Rightarrow> (string \<times> pyvalue) list" where
  "trajectory_dict obs numbers =
     [(''energy'', FloatList (energies obs)),
      (''forces'', ArrayList (forces obs)),
      (''stresses'', ArrayList (stresses obs)),
      (''atom_positions'', ArrayList (atom_positions obs)),
      (''cell'', ArrayList (cells obs)),
      (''atomic_number'', IntArray numbers)]"

text \<open>
  The observers that exist between two operations: a new one, and one after a capture that
  returned. The heap may differ from one capture to the next, as the optimizer moves the atoms.
\<close>

inductive reachable :: "('s, 'a, 'c, 'o, 'i, 'b) env \<Rightarrow> trajectory_observer \<Rightarrow> bool"
  for env :: "('s, 'a, 'c, 'o, 'i, 'b) env" where
  constructed: "reachable env (TrajectoryObserver_init r)"
| captured: "reachable env obs \<Longrightarrow> TrajectoryObserver_call env h obs = (Inr u, obs')
     \<Longrightarrow> reachable env obs'"

subsection \<open>A small toolkit to run the definitions on\<close>

text \<open>
  One atom in a cubic cell of edge \<open>s\<close>; the energy is least at edge 4. The optimizer logs
  and calls the observer at step 0 and after each of two steps, each of which shrinks the cell by
  one. The serialization scheme is the identity.
\<close>

definition demo_env :: "(int, int, unit, unit, int, (string \<times> pyvalue) list) env" where
  "demo_env =
     \<lparr>to_atoms = (\<lambda>s. Inr (content_of s)),
      to_structure = (\<lambda>a. Inr a),
      lattice_of = (\<lambda>s. \<lparr>lat_a = of_int s, lat_b = of_int s, lat_c = of_int s,
                          lat_alpha = 90, lat_beta = 90, lat_gamma = 90,
                          lat_volume = of_int (s * s * s)\<rparr>),
      with_calculator = (\<lambda>a c. a),
      get_potential_energy = (\<lambda>a. Inr (of_int ((a - 4) * (a - 4)))),
      get_forces = (\<lambda>a. Inr (Array2 [[0, 0, 0]])),
      get_stress = (\<lambda>a. Inr (Array1 [of_int (a - 4), of_int (a - 4), of_int (a - 4), 0, 0, 0])),
      get_positions = (\<lambda>a. Array2 [[0, 0, 0]]),
      get_cell = (\<lambda>a. Array2 [[of_int a, 0, 0], [0, of_int a, 0], [0, 0, of_int a]]),
      get_atomic_numbers = (\<lambda>a. [29]),
      atoms_len = (\<lambda>a. 1),
      opt_new = (\<lambda>cls a. Inr 1),
      opt_attach = (\<lambda>opt n. n),
      opt_run = (\<lambda>opt f n a. [Emit ''Step 0'', Observe, Move (a - 1), Emit ''Step 1'', Observe,
                                Move (a - 2), Emit ''Step 2'', Observe]),
      pickle_dump = (\<lambda>d. d),
      pickle_load = (\<lambda>b. Some b)\<rparr>"

text \<open>The same toolkit with a calculator that does not implement the stress.\<close>

definition no_stress_env :: "(int, int, unit, unit, int, (string \<times> pyvalue) list) env" where
  "no_stress_env =
     demo_env\<lparr>get_stress := (\<lambda>a. Inl (ExternalError ''PropertyNotImplementedError''))\<rparr>"

text \<open>
  The caller holds one structure, of edge 6, at reference 0; a file already exists at the
  trajectory path; the empty path cannot be opened.
\<close>

definition demo_world :: "(int, int, (string \<times> pyvalue) list) world" where
  "demo_world =
     \<lparr>heap = [Structure (StructureObj ''Structure'' 6)], sys_stdout = Console, console = [],
      files = [''traj.pkl'' \<mapsto> []], writable = (\<lambda>p. p \<noteq> []), trace = []\<rparr>"

text \<open>The same world, but the caller's structure is of a subclass of \<open>Structure\<close>.\<close>

definition subclass_world :: "(int, int, (string \<times> pyvalue) list) world" where
  "subclass_world = demo_world\<lparr>heap := [Structure (StructureObj ''MyStructure'' 6)]\<rparr>"

definition demo_calc :: "(unit, unit) relax_calc" where
  "demo_calc = \<lparr>calculator = (), opt_class = Some FIRE, fmax = 1 / 10, steps = 500,
                 traj_file = Some ''traj.pkl'', interval = 1\<rparr>"

text \<open>A record of two snapshots, and the record of the run above (three ticks and the last capture).\<close>

definition demo_record :: trajectory_observer where
  "demo_record = \<lparr>atoms = 1, energies = [4, 1], forces = [Array2 [[0, 0, 0]], Array2 [[0, 0, 0]]],
     stresses = [Array1 [2, 2, 2, 0, 0, 0], Array1 [1, 1, 1, 0, 0, 0]],
     atom_positions = [Array2 [[0, 0, 0]], Array2 [[0, 0, 0]]],
     cells = [Array2 [[6, 0, 0], [0, 6, 0], [0, 0, 6]], Array2 [[5, 0, 0], [0, 5, 0], [0, 0, 5]]]\<rparr>"

definition demo_final_record :: trajectory_observer where
  "demo_final_record =
     \<lparr>atoms = 1, energies = [4, 1, 0, 0],
      forces = [Array2 [[0, 0, 0]], Array2 [[0, 0, 0]], Array2 [[0, 0, 0]], Array2 [[0, 0, 0]]],
      stresses = [Array1 [2, 2, 2, 0, 0, 0], Array1 [1, 1, 1, 0, 0, 0],
                  Array1 [0, 0, 0, 0, 0, 0], Array1 [0, 0, 0, 0, 0, 0]],
      atom_positions = [Array2 [[0, 0, 0]], Array2 [[0, 0, 0]], Array2 [[0, 0, 0]], Array2 [[0, 0, 0]]],
      cells = [Array2 [[6, 0, 0], [0, 6, 0], [0, 0, 6]], Array2 [[5, 0, 0], [0, 5, 0], [0, 0, 5]],
               Array2 [[4, 0, 0], [0, 4, 0], [0, 0, 4]], Array2 [[4, 0, 0], [0, 4, 0], [0, 0, 4]]]\<rparr>"


definition demo_first_record :: trajectory_observer where
  "demo_first_record =
     \<lparr>atoms = 1, energies = [4], forces = [Array2 [[0, 0, 0]]],
      stresses = [Array1 [2, 2, 2, 0, 0, 0]],
      atom_positions = [Array2 [[0, 0, 0]]],
      cells = [Array2 [[6, 0, 0], [0, 6, 0], [0, 0, 6]]]\<rparr>"

definition demo_dict :: "trajectory_observer \<Rightarrow> (string \<times> pyvalue) list" where
  "demo_dict obs =
     [(''energy'', FloatList (energies obs)),
      (''forces'', ArrayList (forces obs)),
      (''stresses'', ArrayList (stresses obs)),
      (''atom_positions'', ArrayList (atom_positions obs)),
      (''cell'', ArrayList (cells obs)),
      (''atomic_number'', IntArray [29])]"

definition demo_result :: "(string \<times> int result_value) list" where
  "demo_result =
     [(''final_structure'', VStructure (StructureObj ''Structure'' 4)), (''a'', VFloat 4), (''b'', VFloat 4),
      (''c'', VFloat 4), (''alpha'', VFloat 90), (''beta'', VFloat 90), (''gamma'', VFloat 90),
      (''volume'', VFloat 64)]"

section \<open>Properties\<close>

subsection \<open>Python indexing\<close>

lemma list_getitem_in: "0 \<le> i \<Longrightarrow> i < int (length xs) \<Longrightarrow> list_getitem xs i = Inr (xs ! nat i)"
  by (simp add: list_getitem_def)

lemma list_getitem_neg: "- int (length xs) \<le> i \<Longrightarrow> i < 0 \<Longrightarrow> list_getitem xs i = Inr (xs ! nat (i + int (length xs)))"
  by (simp add: list_getitem_def Let_def)

lemma list_getitem_out: "i < - int (length xs) \<or> int (length xs) \<le> i \<Longrightarrow> list_getitem xs i = Inl (IndexError ''list index out of range'')"
  by (auto simp add: list_getitem_def Let_def)

subsection \<open>Captures\<close>

lemma call_completed:
  assumes "TrajectoryObserver_call env h obs = (Inr u, obs')"
  shows "\<exists>a en f s. the_atoms h (atoms obs) = Inr a \<and> get_potential_energy env a = Inr en \<and>
           get_forces env a = Inr f \<and> get_stress env a = Inr s \<and>
           obs' = obs\<lparr>energies := energies obs @ [en], forces := forces obs @ [f],
                       stresses := stresses obs @ [s],
                       atom_positions := atom_positions obs @ [get_positions env a],
                       cells := cells obs @ [get_cell env a]\<rparr>"
  using assms
  by (auto simp: TrajectoryObserver_call_def Let_def split: sum.splits)

lemma call_atoms: "TrajectoryObserver_call env h obs = (res, obs') \<Longrightarrow> atoms obs' = atoms obs"
  by (auto simp: TrajectoryObserver_call_def Let_def split: sum.splits)

lemma call_completed_len:
  "TrajectoryObserver_call env h obs = (Inr u, obs') \<Longrightarrow>
     length (energies obs') = Suc (length (energies obs))"
  by (drule call_completed) auto

lemma call_completed_ok:
  "TrajectoryObserver_call env h obs = (Inr u, obs') \<Longrightarrow> record_ok obs \<Longrightarrow> record_ok obs'"
  by (drule call_completed) (auto simp: record_ok_def)

lemma reachable_ok: "reachable env obs \<Longrightarrow> record_ok obs"
  by (induction rule: reachable.induct)
     (auto simp: record_ok_def TrajectoryObserver_init_def dest: call_completed_ok)

subsection \<open>The optimizer run and the body of the with statement\<close>

lemma exec_frame:
  "exec_actions env r acts obs w = (res, obs', w') \<Longrightarrow>
     files w' = files w \<and> writable w' = writable w \<and> length (heap w') = length (heap w) \<and>
     (\<forall>k. k \<noteq> r \<longrightarrow> heap w' ! k = heap w ! k) \<and> atoms obs' = atoms obs"
proof (induction env r acts obs w rule: exec_actions.induct)
  case (4 env r acts obs w)
  then show ?case
    by (auto simp: log_event_def split: prod.splits sum.splits dest: call_atoms)
qed (auto simp: write_stdout_def split: sink.splits)

lemma exec_stdout:
  "exec_actions env r acts obs w = (res, obs', w') \<Longrightarrow> sys_stdout w = StringIO buf \<Longrightarrow>
     console w' = console w"
proof (induction env r acts obs w arbitrary: buf rule: exec_actions.induct)
  case (4 env r acts obs w)
  then show ?case
    by (auto simp: log_event_def split: prod.splits sum.splits)
qed (auto simp: write_stdout_def split: sink.splits)

lemma exec_trace:
  "exec_actions env r acts obs w = (res, obs', w') \<Longrightarrow>
     \<exists>k. trace w' = trace w @ replicate k Capture \<and>
         (\<forall>u. res = Inr u \<longrightarrow> length (energies obs') = length (energies obs) + k \<and>
               (record_ok obs \<longrightarrow> record_ok obs'))"
proof (induction env r acts obs w rule: exec_actions.induct)
  case (1 env r obs w)
  then show ?case by auto
next
  case (2 env r a acts obs w)
  then show ?case by auto
next
  case (3 env r t acts obs w)
  then show ?case by (auto simp: write_stdout_def split: sink.splits)
next
  case (4 env r acts obs w)
  show ?case
  proof (cases "TrajectoryObserver_call env (heap w) obs")
    case (Pair cr obs1)
    show ?thesis
    proof (cases cr)
      case (Inl e)
      with Pair 4(2) have "trace w' = trace w @ replicate 1 Capture" "res = Inl e"
        by (auto simp: log_event_def)
      then show ?thesis by blast
    next
      case (Inr u)
      with Pair 4(2) have run: "exec_actions env r acts obs1 (log_event Capture w) = (res, obs', w')"
        by simp
      from 4(1)[OF Pair[symmetric] Inr run] obtain k where
        k: "trace w' = trace (log_event Capture w) @ replicate k Capture"
           "\<forall>u. res = Inr u \<longrightarrow> length (energies obs') = length (energies obs1) + k \<and>
               (record_ok obs1 \<longrightarrow> record_ok obs')"
        by blast
      from Pair Inr have l1: "length (energies obs1) = Suc (length (energies obs))"
        and ok1: "record_ok obs \<Longrightarrow> record_ok obs1"
        by (auto dest: call_completed_len call_completed_ok)
      from k(1) have "trace w' = trace w @ replicate (Suc k) Capture"
        by (simp add: log_event_def replicate_append_same)
      moreover from k(2) l1 ok1
      have "\<forall>u. res = Inr u \<longrightarrow> length (energies obs') = length (energies obs) + Suc k \<and>
               (record_ok obs \<longrightarrow> record_ok obs')"
        by auto
      ultimately show ?thesis by blast
    qed
  qed
next
  case (5 env r e acts obs w)
  then show ?case by auto
qed


lemma run_frame:
  assumes "Optimizer_run env opt f n flt obs w = (res, obs', w')"
  shows "files w' = files w \<and> writable w' = writable w \<and> length (heap w') = length (heap w) \<and>
     (\<forall>k. k \<noteq> filter_atoms flt \<longrightarrow> heap w' ! k = heap w ! k) \<and> atoms obs' = atoms obs \<and>
     (\<forall>buf. sys_stdout w = StringIO buf \<longrightarrow> console w' = console w)"
proof (cases "the_atoms (heap w) (filter_atoms flt)")
  case (Inl e)
  with assms show ?thesis by (simp add: Optimizer_run_def)
next
  case (Inr a)
  obtain res1 obs1 w1 where
    ex: "exec_actions env (filter_atoms flt) (opt_run env opt f n a) obs (log_event RunBegin w)
           = (res1, obs1, w1)"
    by (metis prod_cases3)
  from exec_frame[OF ex] exec_stdout[OF ex]
  have fr: "files w1 = files w" "writable w1 = writable w" "length (heap w1) = length (heap w)"
    "\<forall>k. k \<noteq> filter_atoms flt \<longrightarrow> heap w1 ! k = heap w ! k" "atoms obs1 = atoms obs"
    "\<forall>buf. sys_stdout w = StringIO buf \<longrightarrow> console w1 = console w"
    by (simp_all add: log_event_def)
  from assms Inr ex have "obs' = obs1 \<and> (w' = w1 \<or> w' = log_event RunEnd w1)"
    by (auto simp: Optimizer_run_def split: sum.splits)
  with fr show ?thesis by (auto simp: log_event_def)
qed

lemma run_trace:
  assumes "Optimizer_run env opt f n flt obs w = (res, obs', w')"
  shows "\<exists>evs. trace w' = trace w @ evs \<and> set evs \<subseteq> {RunBegin, Capture, RunEnd}"
proof (cases "the_atoms (heap w) (filter_atoms flt)")
  case (Inl e)
  with assms show ?thesis by (simp add: Optimizer_run_def)
next
  case (Inr a)
  obtain res1 obs1 w1 where
    ex: "exec_actions env (filter_atoms flt) (opt_run env opt f n a) obs (log_event RunBegin w)
           = (res1, obs1, w1)"
    by (metis prod_cases3)
  from exec_trace[OF ex] obtain k where
    k: "trace w1 = trace w @ RunBegin # replicate k Capture"
    by (auto simp: log_event_def)
  from assms Inr ex have "w' = w1 \<or> w' = log_event RunEnd w1"
    by (auto simp: Optimizer_run_def split: sum.splits)
  then show ?thesis
  proof
    assume "w' = w1"
    with k have "trace w' = trace w @ (RunBegin # replicate k Capture)" by simp
    moreover have "set (RunBegin # replicate k Capture) \<subseteq> {RunBegin, Capture, RunEnd}" by auto
    ultimately show ?thesis by blast
  next
    assume "w' = log_event RunEnd w1"
    with k have "trace w' = trace w @ (RunBegin # replicate k Capture @ [RunEnd])"
      by (simp add: log_event_def)
    moreover have "set (RunBegin # replicate k Capture @ [RunEnd]) \<subseteq> {RunBegin, Capture, RunEnd}"
      by auto
    ultimately show ?thesis by blast
  qed
qed

lemma run_completed:
  assumes "Optimizer_run env opt f n flt obs w = (Inr u, obs', w')"
  shows "\<exists>k. trace w' = trace w @ [RunBegin] @ replicate k Capture @ [RunEnd] \<and>
             length (energies obs') = length (energies obs) + k \<and>
             (record_ok obs \<longrightarrow> record_ok obs')"
proof (cases "the_atoms (heap w) (filter_atoms flt)")
  case (Inl e)
  with assms show ?thesis by (simp add: Optimizer_run_def)
next
  case (Inr a)
  obtain res1 obs1 w1 where
    ex: "exec_actions env (filter_atoms flt) (opt_run env opt f n a) obs (log_event RunBegin w)
           = (res1, obs1, w1)"
    by (metis prod_cases3)
  from assms Inr ex have eq: "obs' = obs1" "w' = log_event RunEnd w1" and r1: "res1 = Inr ()"
    by (auto simp: Optimizer_run_def split: sum.splits)
  from exec_trace[OF ex] r1 obtain k where
    k: "trace w1 = trace w @ RunBegin # replicate k Capture"
       "length (energies obs1) = length (energies obs) + k"
       "record_ok obs \<longrightarrow> record_ok obs1"
    by (auto simp: log_event_def)
  from k eq have "trace w' = trace w @ [RunBegin] @ replicate k Capture @ [RunEnd]"
    by (simp add: log_event_def)
  with k eq show ?thesis by blast
qed

lemma block_frame:
  assumes "relax_block env self r w = (res, w')"
  shows "files w' = files w \<and> writable w' = writable w \<and> length (heap w') = length (heap w) \<and>
     (\<forall>k. k \<noteq> r \<longrightarrow> heap w' ! k = heap w ! k) \<and>
     (\<forall>buf. sys_stdout w = StringIO buf \<longrightarrow> console w' = console w) \<and>
     (\<exists>evs. trace w' = trace w @ evs \<and> set evs \<subseteq> {RunBegin, Capture, RunEnd})"
proof (cases "opt_class self")
  case None
  with assms show ?thesis by (simp add: relax_block_def)
next
  case (Some cls)
  show ?thesis
  proof (cases "the_atoms (heap w) r")
    case (Inl e)
    with assms Some show ?thesis by (simp add: relax_block_def)
  next
    case (Inr a)
    show ?thesis
    proof (cases "opt_new env cls a")
      case (Inl e)
      with assms Some \<open>the_atoms (heap w) r = Inr a\<close> show ?thesis by (simp add: relax_block_def)
    next
      case opt: (Inr opt0)
      obtain res1 obs1 w1 where
        run: "Optimizer_run env (opt_attach env opt0 (interval self)) (fmax self) (steps self)
                (ExpCellFilter r) (TrajectoryObserver_init r) w = (res1, obs1, w1)"
        by (metis prod_cases3)
      from run_frame[OF run] have fr:
        "files w1 = files w" "writable w1 = writable w" "length (heap w1) = length (heap w)"
        "\<forall>k. k \<noteq> r \<longrightarrow> heap w1 ! k = heap w ! k"
        "\<forall>buf. sys_stdout w = StringIO buf \<longrightarrow> console w1 = console w"
        by simp_all
      from run_trace[OF run] obtain evs where
        evs: "trace w1 = trace w @ evs" "set evs \<subseteq> {RunBegin, Capture, RunEnd}"
        by blast
      from assms Some Inr opt run have "w' = w1 \<or> w' = log_event Capture w1"
        by (auto simp: relax_block_def Let_def split: sum.splits prod.splits)
      then show ?thesis
      proof
        assume "w' = w1"
        with fr evs show ?thesis by blast
      next
        assume w': "w' = log_event Capture w1"
        with evs have "trace w' = trace w @ (evs @ [Capture])"
          "set (evs @ [Capture]) \<subseteq> {RunBegin, Capture, RunEnd}"
          by (auto simp: log_event_def)
        then have "\<exists>evs. trace w' = trace w @ evs \<and> set evs \<subseteq> {RunBegin, Capture, RunEnd}"
          by blast
        with fr w' show ?thesis by (simp add: log_event_def)
      qed
    qed
  qed
qed

lemma block_completed:
  assumes "relax_block env self r w = (Inr (obs, flt), w')"
  shows "\<exists>k. trace w' = trace w @ [RunBegin] @ replicate k Capture @ [RunEnd, Capture] \<and>
             TrajectoryObserver_len obs = k + 1 \<and> record_ok obs \<and>
             atoms obs = r \<and> flt = ExpCellFilter r"
proof -
  from assms obtain cls where cls: "opt_class self = Some cls"
    by (cases "opt_class self") (auto simp: relax_block_def)
  from assms cls obtain a where a: "the_atoms (heap w) r = Inr a"
    by (cases "the_atoms (heap w) r") (auto simp: relax_block_def)
  from assms cls a obtain opt0 where opt0: "opt_new env cls a = Inr opt0"
    by (cases "opt_new env cls a") (auto simp: relax_block_def)
  obtain res1 obs1 w1 where
    run0: "Optimizer_run env (opt_attach env opt0 (interval self)) (fmax self) (steps self)
            (ExpCellFilter r) (TrajectoryObserver_init r) w = (res1, obs1, w1)"
    by (metis prod_cases3)
  obtain res2 obs2 where fin0: "TrajectoryObserver_call env (heap w1) obs1 = (res2, obs2)"
    by (metis surj_pair)
  from assms cls a opt0 run0 obtain u where res1: "res1 = Inr u"
    by (cases res1) (auto simp: relax_block_def)
  from assms cls a opt0 run0 res1 fin0 obtain u' where res2: "res2 = Inr u'"
    by (cases res2) (auto simp: relax_block_def)
  from assms cls a opt0 run0 res1 fin0 res2
  have w': "w' = log_event Capture w1" and flt: "flt = ExpCellFilter r" and "obs2 = obs"
    by (auto simp: relax_block_def)
  with run0 res1 fin0 res2 have
    run: "Optimizer_run env (opt_attach env opt0 (interval self)) (fmax self) (steps self)
            (ExpCellFilter r) (TrajectoryObserver_init r) w = (Inr u, obs1, w1)"
    and fin: "TrajectoryObserver_call env (heap w1) obs1 = (Inr u', obs)"
    by simp_all
  have ok0: "record_ok (TrajectoryObserver_init r)"
    by (simp add: record_ok_def TrajectoryObserver_init_def)
  from run_completed[OF run] ok0 obtain k where
    k: "trace w1 = trace w @ [RunBegin] @ replicate k Capture @ [RunEnd]"
       "length (energies obs1) = k" "record_ok obs1"
    by (auto simp: TrajectoryObserver_init_def)
  from run_frame[OF run] have "atoms obs1 = r" by (simp add: TrajectoryObserver_init_def)
  with call_atoms[OF fin] have at: "atoms obs = r" by simp
  from call_completed_len[OF fin] k(2) have len: "TrajectoryObserver_len obs = k + 1"
    by (simp add: TrajectoryObserver_len_def)
  from call_completed_ok[OF fin k(3)] have ok: "record_ok obs" .
  from k(1) w' have "trace w' = trace w @ [RunBegin] @ replicate k Capture @ [RunEnd, Capture]"
    by (simp add: log_event_def)
  with len ok at flt show ?thesis by blast
qed


subsection \<open>The stages of calc\<close>

lemma file_writes_append: "file_writes (xs @ ys) = file_writes xs @ file_writes ys"
  by (induction xs rule: file_writes.induct) auto

lemma file_writes_none: "(\<forall>p. FileWrite p \<notin> set evs) \<Longrightarrow> file_writes evs = []"
  by (induction evs rule: file_writes.induct) auto

lemma get_atoms_effect:
  assumes "get_atoms env structure w = (res, w1)"
  shows "files w1 = files w \<and> writable w1 = writable w \<and> sys_stdout w1 = sys_stdout w \<and>
         console w1 = console w \<and> trace w1 = trace w @ [GetAtoms] \<and>
         (\<forall>e. res = Inl e \<longrightarrow> heap w1 = heap w) \<and>
         (\<forall>r. res = Inr r \<longrightarrow> r = length (heap w) \<and> structure < length (heap w) \<and>
               (\<exists>a. heap w1 = heap w @ [Atoms a]))"
  using assms
  by (auto simp: get_atoms_def log_event_def heap_lookup_def Let_def
           split: option.splits pyobj.splits sum.splits if_splits)

lemma set_calculator_effect:
  assumes "set_calculator env r c w = (res, w1)"
  shows "files w1 = files w \<and> writable w1 = writable w \<and> sys_stdout w1 = sys_stdout w \<and>
         console w1 = console w \<and> length (heap w1) = length (heap w) \<and>
         (\<forall>k. k \<noteq> r \<longrightarrow> heap w1 ! k = heap w ! k) \<and>
         (\<forall>e. res = Inl e \<longrightarrow> trace w1 = trace w) \<and>
         (\<forall>u. res = Inr u \<longrightarrow> trace w1 = trace w @ [SetCalculator])"
  using assms
  by (auto simp: set_calculator_def log_event_def split: sum.splits)

lemma redirect_block_effect:
  assumes "redirect_stdout (StringIO buf) (relax_block env self r) w = (res, w')"
  shows "files w' = files w \<and> writable w' = writable w \<and> sys_stdout w' = sys_stdout w \<and>
         console w' = console w \<and> length (heap w') = length (heap w) \<and>
         (\<forall>k. k \<noteq> r \<longrightarrow> heap w' ! k = heap w ! k) \<and>
         (\<exists>evs. trace w' = trace w @ evs \<and> set evs \<subseteq> {RunBegin, Capture, RunEnd})"
proof -
  obtain w1 where body: "relax_block env self r (w\<lparr>sys_stdout := StringIO buf\<rparr>) = (res, w1)"
    and w': "w' = w1\<lparr>sys_stdout := sys_stdout w\<rparr>"
    using assms by (auto simp: redirect_stdout_def Let_def split: prod.splits)
  from block_frame[OF body] w' show ?thesis by simp
qed

lemma redirect_block_completed:
  assumes "redirect_stdout (StringIO buf) (relax_block env self r) w = (Inr (obs, flt), w')"
  shows "\<exists>k. trace w' = trace w @ [RunBegin] @ replicate k Capture @ [RunEnd, Capture] \<and>
             TrajectoryObserver_len obs = k + 1 \<and> record_ok obs \<and>
             atoms obs = r \<and> flt = ExpCellFilter r"
proof -
  obtain w1 where body: "relax_block env self r (w\<lparr>sys_stdout := StringIO buf\<rparr>) = (Inr (obs, flt), w1)"
    and w': "w' = w1\<lparr>sys_stdout := sys_stdout w\<rparr>"
    using assms by (auto simp: redirect_stdout_def Let_def split: prod.splits)
  from block_completed[OF body] w' show ?thesis by simp
qed

lemma save_effect:
  assumes "save env obs filename w = (res, w')"
  shows "heap w' = heap w \<and> writable w' = writable w \<and> sys_stdout w' = sys_stdout w \<and>
         console w' = console w \<and>
         (\<forall>e. res = Inl e \<longrightarrow> w' = w) \<and>
         (\<forall>u. res = Inr u \<longrightarrow> trace w' = trace w @ [FileWrite filename] \<and>
               (\<exists>blob. files w' = (files w)(filename \<mapsto> blob)))"
  using assms
  by (auto simp: save_def log_event_def Let_def split: sum.splits if_splits)

lemma save_returns:
  assumes "save env obs filename w = (Inr u, w')"
  shows "\<exists>a. the_atoms (heap w) (atoms obs) = Inr a \<and>
             files w' = (files w)(filename \<mapsto>
               pickle_dump env (trajectory_dict obs (get_atomic_numbers env a)))"
proof -
  from assms obtain a where a: "the_atoms (heap w) (atoms obs) = Inr a"
    by (cases "the_atoms (heap w) (atoms obs)") (auto simp: save_def)
  from assms a have "files w' = (files w)(filename \<mapsto>
               pickle_dump env (trajectory_dict obs (get_atomic_numbers env a)))"
    by (auto simp: save_def log_event_def Let_def trajectory_dict_def split: if_splits)
  with a show ?thesis by blast
qed

lemma get_structure_effect:
  assumes "get_structure env r w = (res, w')"
  shows "w' = log_event GetStructure w \<and>
         (\<forall>so. res = Inr so \<longrightarrow>
            (\<exists>a s. the_atoms (heap w) r = Inr a \<and> to_structure env a = Inr s \<and>
                   so = StructureObj ''Structure'' s))"
  using assms
  by (auto simp: get_structure_def Let_def split: sum.splits)

lemma calc_stages:
  assumes "calc env self structure w = (res, w')"
  obtains
    (conversion_failed) e where
      "get_atoms env structure w = (Inl e, w')" "res = Inl e"
  | (set_calculator_failed) r w1 e where
      "get_atoms env structure w = (Inr r, w1)"
      "set_calculator env r (calculator self) w1 = (Inl e, w')" "res = Inl e"
  | (block_failed) r w1 u w2 e where
      "get_atoms env structure w = (Inr r, w1)"
      "set_calculator env r (calculator self) w1 = (Inr u, w2)"
      "redirect_stdout (StringIO []) (relax_block env self r) w2 = (Inl e, w')" "res = Inl e"
  | (save_failed) r w1 u w2 obs flt w3 filename e where
      "get_atoms env structure w = (Inr r, w1)"
      "set_calculator env r (calculator self) w1 = (Inr u, w2)"
      "redirect_stdout (StringIO []) (relax_block env self r) w2 = (Inr (obs, flt), w3)"
      "traj_file self = Some filename"
      "save env obs filename w3 = (Inl e, w')" "res = Inl e"
  | (completed) r w1 u w2 obs flt w3 u' w4 sres where
      "get_atoms env structure w = (Inr r, w1)"
      "set_calculator env r (calculator self) w1 = (Inr u, w2)"
      "redirect_stdout (StringIO []) (relax_block env self r) w2 = (Inr (obs, flt), w3)"
      "traj_file self = None \<and> w4 = w3 \<or>
       (\<exists>filename. traj_file self = Some filename \<and> save env obs filename w3 = (Inr u', w4))"
      "get_structure env (filter_atoms flt) w4 = (sres, w')"
      "(\<exists>e. sres = Inl e \<and> res = Inl e) \<or>
       (\<exists>fs. sres = Inr fs \<and>
          res = Inr [(''final_structure'', VStructure fs),
                     (''a'', VFloat (lat_a (lattice_of env (content_of fs)))),
                     (''b'', VFloat (lat_b (lattice_of env (content_of fs)))),
                     (''c'', VFloat (lat_c (lattice_of env (content_of fs)))),
                     (''alpha'', VFloat (lat_alpha (lattice_of env (content_of fs)))),
                     (''beta'', VFloat (lat_beta (lattice_of env (content_of fs)))),
                     (''gamma'', VFloat (lat_gamma (lattice_of env (content_of fs)))),
                     (''volume'', VFloat (lat_volume (lattice_of env (content_of fs))))])"
proof -
  obtain r1 w1 where ga: "get_atoms env structure w = (r1, w1)" by (metis surj_pair)
  show thesis
  proof (cases r1)
    case (Inl e)
    with ga assms conversion_failed show thesis by (simp add: calc_def)
  next
    case (Inr r)
    obtain r2 w2 where sc: "set_calculator env r (calculator self) w1 = (r2, w2)"
      by (metis surj_pair)
    show thesis
    proof (cases r2)
      case (Inl e)
      with ga \<open>r1 = Inr r\<close> sc assms set_calculator_failed show thesis by (simp add: calc_def)
    next
      case u: (Inr u)
      obtain r3 w3 where
        rb: "redirect_stdout (StringIO []) (relax_block env self r) w2 = (r3, w3)"
        by (metis surj_pair)
      show thesis
      proof (cases r3)
        case (Inl e)
        with ga Inr sc u rb assms block_failed show thesis by (simp add: calc_def)
      next
        case pr: (Inr pr)
        obtain obs flt where pr': "pr = (obs, flt)" by (metis surj_pair)
        obtain r4 w4 where
          sv: "(case traj_file self of None \<Rightarrow> (Inr (), w3)
                | Some filename \<Rightarrow> save env obs filename w3) = (r4, w4)"
          by (metis surj_pair)
        show thesis
        proof (cases r4)
          case (Inl e)
          with sv obtain filename where
            "traj_file self = Some filename" "save env obs filename w3 = (Inl e, w4)"
            by (cases "traj_file self") auto
          moreover from ga Inr sc u rb pr pr' sv Inl assms have "res = Inl e" "w' = w4"
            by (simp_all add: calc_def)
          ultimately show thesis using ga Inr sc u rb pr pr' save_failed by simp
        next
          case u': (Inr u')
          obtain sres w5 where gs: "get_structure env (filter_atoms flt) w4 = (sres, w5)"
            by (metis surj_pair)
          from sv u' have c4: "traj_file self = None \<and> w4 = w3 \<or>
            (\<exists>filename. traj_file self = Some filename \<and> save env obs filename w3 = (Inr u', w4))"
            by (cases "traj_file self") auto
          from ga Inr sc u rb pr pr' sv u' gs assms have "w' = w5"
            by (cases sres) (simp_all add: calc_def Let_def)
          moreover from ga Inr sc u rb pr pr' sv u' gs assms have
            "(\<exists>e. sres = Inl e \<and> res = Inl e) \<or>
             (\<exists>fs. sres = Inr fs \<and>
                res = Inr [(''final_structure'', VStructure fs),
                     (''a'', VFloat (lat_a (lattice_of env (content_of fs)))),
                     (''b'', VFloat (lat_b (lattice_of env (content_of fs)))),
                     (''c'', VFloat (lat_c (lattice_of env (content_of fs)))),
                     (''alpha'', VFloat (lat_alpha (lattice_of env (content_of fs)))),
                     (''beta'', VFloat (lat_beta (lattice_of env (content_of fs)))),
                     (''gamma'', VFloat (lat_gamma (lattice_of env (content_of fs)))),
                     (''volume'', VFloat (lat_volume (lattice_of env (content_of fs))))])"
            by (cases sres) (simp_all add: calc_def Let_def)
          ultimately show thesis using ga Inr sc u rb pr pr' c4 gs completed by simp
        qed
      qed
    qed
  qed
qed


lemma take_unchanged:
  "length h \<le> length h' \<Longrightarrow> \<forall>k<length h. h' ! k = h ! k \<Longrightarrow> take (length h) h' = h"
  by (simp add: list_eq_iff_nth_eq)

lemma calc_stdout:
  assumes "calc env self structure w = (res, w')"
  shows "sys_stdout w' = sys_stdout w \<and> console w' = console w"
  using assms
proof (cases rule: calc_stages)
  case (conversion_failed e)
  from get_atoms_effect[OF conversion_failed(1)] show ?thesis by simp
next
  case (set_calculator_failed r w1 e)
  from get_atoms_effect[OF set_calculator_failed(1)] set_calculator_effect[OF set_calculator_failed(2)]
  show ?thesis by simp
next
  case (block_failed r w1 u w2 e)
  from get_atoms_effect[OF block_failed(1)] set_calculator_effect[OF block_failed(2)]
    redirect_block_effect[OF block_failed(3)]
  show ?thesis by simp
next
  case (save_failed r w1 u w2 obs flt w3 filename e)
  from get_atoms_effect[OF save_failed(1)] set_calculator_effect[OF save_failed(2)]
    redirect_block_effect[OF save_failed(3)] save_effect[OF save_failed(5)]
  show ?thesis by simp
next
  case (completed r w1 u w2 obs flt w3 u' w4 sres)
  from completed(4) have "sys_stdout w4 = sys_stdout w3 \<and> console w4 = console w3"
    by (auto dest: save_effect)
  with get_atoms_effect[OF completed(1)] set_calculator_effect[OF completed(2)]
    redirect_block_effect[OF completed(3)] get_structure_effect[OF completed(5)]
  show ?thesis by (simp add: log_event_def)
qed

lemma calc_heap:
  assumes "calc env self structure w = (res, w')"
  shows "length (heap w) \<le> length (heap w') \<and> length (heap w') \<le> Suc (length (heap w)) \<and>
         (\<forall>k<length (heap w). heap w' ! k = heap w ! k) \<and>
         (length (heap w) \<le> structure \<longrightarrow> heap w' = heap w)"
  using assms
proof (cases rule: calc_stages)
  case (conversion_failed e)
  from get_atoms_effect[OF conversion_failed(1)] conversion_failed(2) show ?thesis by simp
next
  case (set_calculator_failed r w1 e)
  from get_atoms_effect[OF set_calculator_failed(1)] set_calculator_effect[OF set_calculator_failed(2)]
  show ?thesis by (auto simp: nth_append)
next
  case (block_failed r w1 u w2 e)
  from get_atoms_effect[OF block_failed(1)] set_calculator_effect[OF block_failed(2)]
    redirect_block_effect[OF block_failed(3)]
  show ?thesis by (auto simp: nth_append)
next
  case (save_failed r w1 u w2 obs flt w3 filename e)
  from get_atoms_effect[OF save_failed(1)] set_calculator_effect[OF save_failed(2)]
    redirect_block_effect[OF save_failed(3)] save_effect[OF save_failed(5)]
  show ?thesis by (auto simp: nth_append)
next
  case (completed r w1 u w2 obs flt w3 u' w4 sres)
  from completed(4) have "heap w4 = heap w3"
    by (auto dest: save_effect)
  with get_atoms_effect[OF completed(1)] set_calculator_effect[OF completed(2)]
    redirect_block_effect[OF completed(3)] get_structure_effect[OF completed(5)]
  show ?thesis by (auto simp: log_event_def nth_append)
qed

lemma calc_result:
  assumes "calc env self structure w = (Inr d, w')"
  shows "\<exists>a fs. the_atoms (heap w') (length (heap w)) = Inr a \<and> to_structure env a = Inr fs \<and>
           d = [(''final_structure'', VStructure (StructureObj ''Structure'' fs)),
                (''a'', VFloat (lat_a (lattice_of env fs))),
                (''b'', VFloat (lat_b (lattice_of env fs))),
                (''c'', VFloat (lat_c (lattice_of env fs))),
                (''alpha'', VFloat (lat_alpha (lattice_of env fs))),
                (''beta'', VFloat (lat_beta (lattice_of env fs))),
                (''gamma'', VFloat (lat_gamma (lattice_of env fs))),
                (''volume'', VFloat (lat_volume (lattice_of env fs)))]"
  using assms
proof (cases rule: calc_stages)
  case (completed r w1 u w2 obs flt w3 u' w4 sres)
  from completed(6) obtain so where so: "sres = Inr so"
    "d = [(''final_structure'', VStructure so),
                (''a'', VFloat (lat_a (lattice_of env (content_of so)))),
                (''b'', VFloat (lat_b (lattice_of env (content_of so)))),
                (''c'', VFloat (lat_c (lattice_of env (content_of so)))),
                (''alpha'', VFloat (lat_alpha (lattice_of env (content_of so)))),
                (''beta'', VFloat (lat_beta (lattice_of env (content_of so)))),
                (''gamma'', VFloat (lat_gamma (lattice_of env (content_of so)))),
                (''volume'', VFloat (lat_volume (lattice_of env (content_of so))))]"
    by auto
  from redirect_block_completed[OF completed(3)] have flt: "filter_atoms flt = r" by auto
  from get_atoms_effect[OF completed(1)] have r: "r = length (heap w)" by simp
  from get_structure_effect[OF completed(5)] so(1) flt r obtain a fs where
    "the_atoms (heap w') (length (heap w)) = Inr a" "to_structure env a = Inr fs"
    "so = StructureObj ''Structure'' fs"
    by (auto simp: log_event_def)
  with so(2) show ?thesis by auto
qed simp_all

lemma calc_files:
  assumes "calc env self structure w = (res, w')"
  shows "\<exists>evs. trace w' = trace w @ evs \<and>
           (traj_file self = None \<longrightarrow> file_writes evs = [] \<and> files w' = files w) \<and>
           (\<forall>p. traj_file self = Some p \<longrightarrow>
              file_writes evs = [] \<and> files w' = files w \<and> (\<forall>d. res \<noteq> Inr d) \<or>
              (\<exists>k obs flt w3 a.
                 redirect_stdout (StringIO []) (relax_block env self (length (heap w)))
                   (snd (set_calculator env (length (heap w)) (calculator self)
                          (snd (get_atoms env structure w)))) = (Inr (obs, flt), w3) \<and>
                 TrajectoryObserver_len obs = k + 1 \<and>
                 the_atoms (heap w3) (length (heap w)) = Inr a \<and>
                 file_writes evs = [p] \<and>
                 evs = [GetAtoms, SetCalculator, RunBegin] @ replicate k Capture @
                         [RunEnd, Capture, FileWrite p, GetStructure] \<and>
                 files w' = (files w)(p \<mapsto>
                   pickle_dump env (trajectory_dict obs (get_atomic_numbers env a)))))"
  using assms
proof (cases rule: calc_stages)
  case (conversion_failed e)
  from get_atoms_effect[OF conversion_failed(1)] conversion_failed(2)
  have "trace w' = trace w @ [GetAtoms]" "files w' = files w" "\<forall>d. res \<noteq> Inr d" by auto
  then show ?thesis by (intro exI[of _ "[GetAtoms]"]) simp
next
  case (set_calculator_failed r w1 e)
  from get_atoms_effect[OF set_calculator_failed(1)] set_calculator_effect[OF set_calculator_failed(2)]
    set_calculator_failed(3)
  have "trace w' = trace w @ [GetAtoms]" "files w' = files w" "\<forall>d. res \<noteq> Inr d" by auto
  then show ?thesis by (intro exI[of _ "[GetAtoms]"]) simp
next
  case (block_failed r w1 u w2 e)
  from redirect_block_effect[OF block_failed(3)] obtain evs where
    evs: "trace w' = trace w2 @ evs" "set evs \<subseteq> {RunBegin, Capture, RunEnd}"
    and f: "files w' = files w2"
    by blast
  from evs(2) have "file_writes evs = []" by (intro file_writes_none) auto
  with get_atoms_effect[OF block_failed(1)] set_calculator_effect[OF block_failed(2)] evs f
    block_failed(4)
  have "trace w' = trace w @ ([GetAtoms, SetCalculator] @ evs)"
    "file_writes ([GetAtoms, SetCalculator] @ evs) = []" "files w' = files w" "\<forall>d. res \<noteq> Inr d"
    by auto
  then show ?thesis by (intro exI[of _ "[GetAtoms, SetCalculator] @ evs"]) simp
next
  case (save_failed r w1 u w2 obs flt w3 filename e)
  from redirect_block_effect[OF save_failed(3)] obtain evs where
    evs: "trace w3 = trace w2 @ evs" "set evs \<subseteq> {RunBegin, Capture, RunEnd}"
    and f: "files w3 = files w2"
    by blast
  from evs(2) have "file_writes evs = []" by (intro file_writes_none) auto
  with get_atoms_effect[OF save_failed(1)] set_calculator_effect[OF save_failed(2)] evs f
    save_effect[OF save_failed(5)] save_failed(6)
  have "trace w' = trace w @ ([GetAtoms, SetCalculator] @ evs)"
    "file_writes ([GetAtoms, SetCalculator] @ evs) = []" "files w' = files w" "\<forall>d. res \<noteq> Inr d"
    by auto
  then show ?thesis by (intro exI[of _ "[GetAtoms, SetCalculator] @ evs"]) simp
next
  case (completed r w1 u w2 obs flt w3 u' w4 sres)
  from get_atoms_effect[OF completed(1)] have r: "r = length (heap w)" by simp
  from completed(1) have w1: "w1 = snd (get_atoms env structure w)" by simp
  from completed(2) r w1 have
    w2: "w2 = snd (set_calculator env (length (heap w)) (calculator self)
                     (snd (get_atoms env structure w)))"
    by simp
  from completed(3) r w2 have
    blk: "redirect_stdout (StringIO []) (relax_block env self (length (heap w)))
            (snd (set_calculator env (length (heap w)) (calculator self)
                   (snd (get_atoms env structure w)))) = (Inr (obs, flt), w3)"
    by simp
  from redirect_block_completed[OF completed(3)] obtain k where
    k: "trace w3 = trace w2 @ [RunBegin] @ replicate k Capture @ [RunEnd, Capture]"
    and len: "TrajectoryObserver_len obs = k + 1" and at: "atoms obs = r"
    by blast
  from redirect_block_effect[OF completed(3)] have f3: "files w3 = files w2" by simp
  from get_atoms_effect[OF completed(1)] set_calculator_effect[OF completed(2)] k f3
  have t3: "trace w3 = trace w @ [GetAtoms, SetCalculator, RunBegin] @ replicate k Capture @
              [RunEnd, Capture]" and f3': "files w3 = files w"
    by simp_all
  have fw: "file_writes ([GetAtoms, SetCalculator, RunBegin] @ replicate k Capture @
              [RunEnd, Capture]) = []"
    by (intro file_writes_none) auto
  from get_structure_effect[OF completed(5)] have w': "w' = log_event GetStructure w4" by simp
  from completed(4) show ?thesis
  proof
    assume none: "traj_file self = None \<and> w4 = w3"
    with t3 f3' w' have "trace w' = trace w @ ([GetAtoms, SetCalculator, RunBegin] @
        replicate k Capture @ [RunEnd, Capture] @ [GetStructure])" "files w' = files w"
      by (simp_all add: log_event_def)
    moreover from fw have "file_writes ([GetAtoms, SetCalculator, RunBegin] @
        replicate k Capture @ [RunEnd, Capture] @ [GetStructure]) = []"
      by (simp add: file_writes_append)
    ultimately show ?thesis using none
      by (intro exI[of _ "[GetAtoms, SetCalculator, RunBegin] @
        replicate k Capture @ [RunEnd, Capture] @ [GetStructure]"]) simp
  next
    assume "\<exists>filename. traj_file self = Some filename \<and> save env obs filename w3 = (Inr u', w4)"
    then obtain p where p: "traj_file self = Some p" and sv: "save env obs p w3 = (Inr u', w4)"
      by blast
    from save_effect[OF sv] have t4: "trace w4 = trace w3 @ [FileWrite p]" by blast
    from save_returns[OF sv] at r obtain a where
      a: "the_atoms (heap w3) (length (heap w)) = Inr a"
      and f4: "files w4 = (files w3)(p \<mapsto>
                 pickle_dump env (trajectory_dict obs (get_atomic_numbers env a)))"
      by auto
    let ?evs = "[GetAtoms, SetCalculator, RunBegin] @ replicate k Capture @
                  [RunEnd, Capture, FileWrite p, GetStructure]"
    from t3 t4 w' have t: "trace w' = trace w @ ?evs" by (simp add: log_event_def)
    from f3' f4 w' have f: "files w' = (files w)(p \<mapsto>
                 pickle_dump env (trajectory_dict obs (get_atomic_numbers env a)))"
      by (simp add: log_event_def)
    have "?evs = ([GetAtoms, SetCalculator, RunBegin] @ replicate k Capture @ [RunEnd, Capture])
                 @ [FileWrite p, GetStructure]" by simp
    with fw have fw': "file_writes ?evs = [p]"
      by (simp only: file_writes_append) simp
    from blk len a fw' f have
      "\<exists>k' obs' flt' w3' a'.
          redirect_stdout (StringIO []) (relax_block env self (length (heap w)))
            (snd (set_calculator env (length (heap w)) (calculator self)
                   (snd (get_atoms env structure w)))) = (Inr (obs', flt'), w3') \<and>
          TrajectoryObserver_len obs' = k' + 1 \<and>
          the_atoms (heap w3') (length (heap w)) = Inr a' \<and>
          file_writes ?evs = [p] \<and>
          ?evs = [GetAtoms, SetCalculator, RunBegin] @ replicate k' Capture @
                   [RunEnd, Capture, FileWrite p, GetStructure] \<and>
          files w' = (files w)(p \<mapsto>
            pickle_dump env (trajectory_dict obs' (get_atomic_numbers env a')))"
      by blast
    with t p show ?thesis
      by (intro exI[of _ ?evs]) simp
  qed
qed

subsection \<open>The small toolkit, evaluated\<close>

lemmas demo_defs = demo_env_def demo_world_def demo_calc_def

lemma demo_init:
  "RelaxCalc_init () (Name ''FIRE'') (1 / 10) 500 (Some ''traj.pkl'') 1 = Inr demo_calc"
  by (simp add: RelaxCalc_init_def OPTIMIZERS_def demo_calc_def)

lemma demo_call:
  "TrajectoryObserver_call demo_env [Structure (StructureObj ''Structure'' 6), Atoms 6] (TrajectoryObserver_init 1) =
     (Inr (), demo_first_record)"
  by (simp add: TrajectoryObserver_call_def TrajectoryObserver_init_def the_atoms_def
      heap_lookup_def demo_env_def demo_first_record_def)

lemma demo_call_no_stress:
  "TrajectoryObserver_call no_stress_env [Structure (StructureObj ''Structure'' 6), Atoms 6] (TrajectoryObserver_init 1) =
     (Inl (ExternalError ''PropertyNotImplementedError''),
      \<lparr>atoms = 1, energies = [4], forces = [Array2 [[0, 0, 0]]], stresses = [],
       atom_positions = [], cells = []\<rparr>)"
  by (simp add: TrajectoryObserver_call_def TrajectoryObserver_init_def the_atoms_def
      heap_lookup_def demo_env_def no_stress_env_def)

text \<open>Run on the console, the body of the \<open>with\<close> statement surfaces the optimizer's text.\<close>

lemma demo_block:
  "relax_block demo_env demo_calc 1 (demo_world\<lparr>heap := [Structure (StructureObj ''Structure'' 6), Atoms 6]\<rparr>) =
     (Inr (demo_final_record, ExpCellFilter 1),
      demo_world\<lparr>heap := [Structure (StructureObj ''Structure'' 6), Atoms 4],
                  console := [''Step 0'', ''Step 1'', ''Step 2''],
                  trace := [RunBegin, Capture, Capture, Capture, RunEnd, Capture]\<rparr>)"
  by (simp add: relax_block_def Optimizer_run_def TrajectoryObserver_call_def
      TrajectoryObserver_init_def the_atoms_def heap_lookup_def demo_defs log_event_def
      write_stdout_def demo_final_record_def)

text \<open>Run under a redirection, the text ends in the stream.\<close>

lemma demo_block_redirected:
  "relax_block demo_env demo_calc 1
     (demo_world\<lparr>heap := [Structure (StructureObj ''Structure'' 6), Atoms 6], sys_stdout := StringIO []\<rparr>) =
     (Inr (demo_final_record, ExpCellFilter 1),
      demo_world\<lparr>heap := [Structure (StructureObj ''Structure'' 6), Atoms 4],
                  sys_stdout := StringIO [''Step 0'', ''Step 1'', ''Step 2''],
                  trace := [RunBegin, Capture, Capture, Capture, RunEnd, Capture]\<rparr>)"
  by (simp add: relax_block_def Optimizer_run_def TrajectoryObserver_call_def
      TrajectoryObserver_init_def the_atoms_def heap_lookup_def demo_defs log_event_def
      write_stdout_def demo_final_record_def)

lemma demo_run:
  "calc demo_env demo_calc 0 demo_world =
     (Inr demo_result,
      demo_world\<lparr>heap := [Structure (StructureObj ''Structure'' 6), Atoms 4],
         files := (files demo_world)(''traj.pkl'' \<mapsto> demo_dict demo_final_record),
         trace := [GetAtoms, SetCalculator, RunBegin, Capture, Capture, Capture,
                   RunEnd, Capture, FileWrite ''traj.pkl'', GetStructure]\<rparr>)"
  by (simp add: calc_def get_atoms_def set_calculator_def redirect_stdout_def save_def
      get_structure_def relax_block_def Optimizer_run_def TrajectoryObserver_call_def
      TrajectoryObserver_init_def the_atoms_def heap_lookup_def demo_defs log_event_def
      write_stdout_def demo_final_record_def demo_dict_def demo_result_def)

lemma demo_run_no_file:
  "calc demo_env (demo_calc\<lparr>traj_file := None\<rparr>) 0 demo_world =
     (Inr demo_result,
      demo_world\<lparr>heap := [Structure (StructureObj ''Structure'' 6), Atoms 4],
         trace := [GetAtoms, SetCalculator, RunBegin, Capture, Capture, Capture,
                   RunEnd, Capture, GetStructure]\<rparr>)"
  by (simp add: calc_def get_atoms_def set_calculator_def redirect_stdout_def save_def
      get_structure_def relax_block_def Optimizer_run_def TrajectoryObserver_call_def
      TrajectoryObserver_init_def the_atoms_def heap_lookup_def demo_defs log_event_def
      write_stdout_def demo_final_record_def demo_dict_def demo_result_def)

lemma demo_run_subclass:
  "calc demo_env demo_calc 0 subclass_world =
     (Inr demo_result,
      demo_world\<lparr>heap := [Structure (StructureObj ''MyStructure'' 6), Atoms 4],
         files := (files demo_world)(''traj.pkl'' \<mapsto> demo_dict demo_final_record),
         trace := [GetAtoms, SetCalculator, RunBegin, Capture, Capture, Capture,
                   RunEnd, Capture, FileWrite ''traj.pkl'', GetStructure]\<rparr>)"
  by (simp add: calc_def get_atoms_def set_calculator_def redirect_stdout_def save_def
      get_structure_def relax_block_def Optimizer_run_def TrajectoryObserver_call_def
      TrajectoryObserver_init_def the_atoms_def heap_lookup_def demo_defs log_event_def
      write_stdout_def demo_final_record_def demo_dict_def demo_result_def subclass_world_def)

lemma demo_save:
  "save demo_env demo_record ''traj.pkl'' (demo_world\<lparr>heap := [Structure (StructureObj ''Structure'' 6), Atoms 5]\<rparr>) =
     (Inr (),
      demo_world\<lparr>heap := [Structure (StructureObj ''Structure'' 6), Atoms 5],
         files := (files demo_world)(''traj.pkl'' \<mapsto> demo_dict demo_record),
         trace := [FileWrite ''traj.pkl'']\<rparr>)"
proof -
  have "atoms demo_record = 1" by (simp add: demo_record_def)
  then show ?thesis
    by (simp add: save_def the_atoms_def heap_lookup_def demo_defs log_event_def demo_dict_def)
qed

subsection \<open>An optimizer name that is not registered\<close>

lemma unregistered_name_constructs:
  "map_of (OPTIMIZERS :: (string \<times> 'o optimizer_class) list) name = None \<Longrightarrow>
     RelaxCalc_init c (Name name :: 'o optimizer_arg) f n t i =
       Inr \<lparr>calculator = c, opt_class = None, fmax = f, steps = n, traj_file = t, interval = i\<rparr>"
  by (simp add: RelaxCalc_init_def)

lemma get_atoms_returned:
  assumes "get_atoms env structure w = (Inr r, w1)"
  shows "r = length (heap w) \<and> trace w1 = trace w @ [GetAtoms] \<and> (\<exists>a. heap w1 = heap w @ [Atoms a])"
  using get_atoms_effect[OF assms] by blast

lemma new_atoms_found:
  assumes "heap w1 = heap w @ [Atoms a]" "r = length (heap w)"
  shows "the_atoms (heap w1) r = Inr a"
  using assms by (simp add: the_atoms_def heap_lookup_def)

lemma set_calculator_returns:
  assumes "the_atoms (heap w1) r = Inr a"
  shows "set_calculator env r c w1 =
     (Inr (), log_event SetCalculator (w1\<lparr>heap := (heap w1)[r := Atoms (with_calculator env a c)]\<rparr>))"
  using assms by (simp add: set_calculator_def)

lemma none_class_not_callable:
  assumes "opt_class self = None"
  shows "redirect_stdout stream (relax_block env self r) w2 =
      (Inl (TypeError ''NoneType object is not callable''), w2)"
  using assms by (simp add: relax_block_def redirect_stdout_def)


lemma none_class_fails_after_conversion:
  assumes none: "opt_class self = None" and ga: "get_atoms env structure w = (Inr r, w1)"
  shows "\<exists>w'. calc env self structure w = (Inl (TypeError ''NoneType object is not callable''), w') \<and>
              trace w' = trace w @ [GetAtoms, SetCalculator]"
proof -
  from get_atoms_returned[OF ga] obtain a where
    r: "r = length (heap w)" and t1: "trace w1 = trace w @ [GetAtoms]"
    and h1: "heap w1 = heap w @ [Atoms a]"
    by blast
  let ?w2 = "log_event SetCalculator
               (w1\<lparr>heap := (heap w1)[r := Atoms (with_calculator env a (calculator self))]\<rparr>)"
  have sc: "set_calculator env r (calculator self) w1 = (Inr (), ?w2)"
    by (rule set_calculator_returns[OF new_atoms_found[OF h1 r]])
  have rb: "redirect_stdout (StringIO []) (relax_block env self r) ?w2 =
      (Inl (TypeError ''NoneType object is not callable''), ?w2)"
    by (rule none_class_not_callable[OF none])
  have c: "calc env self structure w = (Inl (TypeError ''NoneType object is not callable''), ?w2)"
    unfolding calc_def ga by (simp only: sc rb Let_def prod.case sum.case)
  have "trace ?w2 = trace w @ [GetAtoms, SetCalculator]"
    by (simp add: log_event_def t1)
  with c show ?thesis by blast
qed

section \<open>The claims\<close>

subsection \<open>C1: an optimizer name that is not in the registry\<close>

text \<open>
  C1 says that a name outside the registry raises a configuration error before any conversion.
  The code does not do that: \<open>OPTIMIZERS.get(name, None)\<close> yields \<open>None\<close>, the constructor
  stores it and returns, and \<open>calc\<close> converts the structure and attaches the calculator before
  the call \<open>self.opt_class(atoms)\<close> raises \<open>TypeError\<close>. The constructor rejects \<open>None\<close> on
  the neighbouring branch ("Optimizer cannot be None"), so the unchecked lookup is a missed case.
  The evaluation below is at the name \<open>Adam\<close>; \<open>unregistered_name_constructs\<close> and
  \<open>none_class_fails_after_conversion\<close> are the same facts for every unregistered name.
\<close>

theorem unregistered_name_fails_late:
  "RelaxCalc_init () (Name ''Adam'' :: unit optimizer_arg) (1 / 10) 500 None 1 =
     Inr \<lparr>calculator = (), opt_class = None, fmax = 1 / 10, steps = 500, traj_file = None,
          interval = 1\<rparr> \<and>
   fst (relax demo_env () (Name ''Adam'') (1 / 10) 500 None 1 0 demo_world) =
     Inl (TypeError ''NoneType object is not callable'') \<and>
   trace (snd (relax demo_env () (Name ''Adam'') (1 / 10) 500 None 1 0 demo_world)) =
     [GetAtoms, SetCalculator] \<and>
   heap (snd (relax demo_env () (Name ''Adam'') (1 / 10) 500 None 1 0 demo_world)) =
     [Structure (StructureObj ''Structure'' 6), Atoms 6]"
  by (simp add: relax_def RelaxCalc_init_def OPTIMIZERS_def calc_def get_atoms_def
      set_calculator_def redirect_stdout_def relax_block_def the_atoms_def heap_lookup_def
      demo_env_def demo_world_def log_event_def)

subsection \<open>C2: the length of the record after a run\<close>

text \<open>
  C2. When the optimizer block of the driver completes, the log of the block is: the run begins,
  \<open>k\<close> captures on interval ticks, the run ends, one more capture; and the record the block
  hands on has \<open>k + 1\<close> snapshots. A block that raises hands no record on.
\<close>

theorem record_length_is_ticks_plus_one:
  assumes "relax_block env self r w = (Inr (obs, flt), w')"
  shows "\<exists>k. trace w' = trace w @ [RunBegin] @ replicate k Capture @ [RunEnd, Capture] \<and>
             TrajectoryObserver_len obs = k + 1"
  using block_completed[OF assms] by blast

theorem record_length_is_ticks_plus_one_witness:
  "relax_block demo_env demo_calc 1 (demo_world\<lparr>heap := [Structure (StructureObj ''Structure'' 6), Atoms 6]\<rparr>) =
     (Inr (demo_final_record, ExpCellFilter 1),
      demo_world\<lparr>heap := [Structure (StructureObj ''Structure'' 6), Atoms 4],
                  console := [''Step 0'', ''Step 1'', ''Step 2''],
                  trace := [RunBegin, Capture, Capture, Capture, RunEnd, Capture]\<rparr>) \<and>
   [RunBegin, Capture, Capture, Capture, RunEnd, Capture] =
     [RunBegin] @ replicate 3 Capture @ [RunEnd, Capture] \<and>
   TrajectoryObserver_len demo_final_record = 3 + 1"
  using record_length_is_ticks_plus_one[OF demo_block] demo_block
  by (simp add: demo_world_def TrajectoryObserver_len_def demo_final_record_def numeral_3_eq_3)

subsection \<open>C3: persisting a record and reading it back\<close>

text \<open>
  C3. For a serialization scheme that round-trips, and a toolkit that keeps one atomic number per
  atom: after \<open>save\<close> has returned, the file at the path holds exactly the pickled dictionary
  whatever it held before, no other path changed, and reading the path back gives the five
  sequences of the observer unchanged (so with their lengths and contents) and the atomic numbers
  of the observed atoms, as many as there are atoms.
\<close>

theorem save_then_read_back:
  assumes "\<forall>d. pickle_load env (pickle_dump env d) = Some d"
    and "\<forall>a. length (get_atomic_numbers env a) = atoms_len env a"
    and "save env obs path w = (Inr u, w')"
  shows "\<exists>a d. the_atoms (heap w) (atoms obs) = Inr a \<and>
           files w' path = Some (pickle_dump env d) \<and>
           (\<forall>q. q \<noteq> path \<longrightarrow> files w' q = files w q) \<and>
           read_back env w' path = Some d \<and>
           map_of d ''energy'' = Some (FloatList (energies obs)) \<and>
           map_of d ''forces'' = Some (ArrayList (forces obs)) \<and>
           map_of d ''stresses'' = Some (ArrayList (stresses obs)) \<and>
           map_of d ''atom_positions'' = Some (ArrayList (atom_positions obs)) \<and>
           map_of d ''cell'' = Some (ArrayList (cells obs)) \<and>
           map_of d ''atomic_number'' = Some (IntArray (get_atomic_numbers env a)) \<and>
           length (get_atomic_numbers env a) = atoms_len env a"
proof -
  from assms(3) obtain a where a: "the_atoms (heap w) (atoms obs) = Inr a"
    by (cases "the_atoms (heap w) (atoms obs)") (auto simp: save_def)
  let ?d = "[(''energy'', FloatList (energies obs)),
             (''forces'', ArrayList (forces obs)),
             (''stresses'', ArrayList (stresses obs)),
             (''atom_positions'', ArrayList (atom_positions obs)),
             (''cell'', ArrayList (cells obs)),
             (''atomic_number'', IntArray (get_atomic_numbers env a))]"
  from assms(3) a have f: "files w' = (files w)(path \<mapsto> pickle_dump env ?d)"
    by (auto simp: save_def log_event_def Let_def split: if_splits)
  then have f1: "files w' path = Some (pickle_dump env ?d)"
    and f2: "\<forall>q. q \<noteq> path \<longrightarrow> files w' q = files w q"
    by simp_all
  from f1 assms(1) have rb: "read_back env w' path = Some ?d"
    by (simp add: read_back_def)
  have m: "map_of ?d ''energy'' = Some (FloatList (energies obs))"
    "map_of ?d ''forces'' = Some (ArrayList (forces obs))"
    "map_of ?d ''stresses'' = Some (ArrayList (stresses obs))"
    "map_of ?d ''atom_positions'' = Some (ArrayList (atom_positions obs))"
    "map_of ?d ''cell'' = Some (ArrayList (cells obs))"
    "map_of ?d ''atomic_number'' = Some (IntArray (get_atomic_numbers env a))"
    by simp_all
  from assms(2) have l: "length (get_atomic_numbers env a) = atoms_len env a" by simp
  from a f1 f2 rb m l show ?thesis by blast
qed

theorem save_then_read_back_witness:
  "(\<forall>d. pickle_load demo_env (pickle_dump demo_env d) = Some d) \<and>
   (\<forall>a. length (get_atomic_numbers demo_env a) = atoms_len demo_env a) \<and>
   save demo_env demo_record ''traj.pkl'' (demo_world\<lparr>heap := [Structure (StructureObj ''Structure'' 6), Atoms 5]\<rparr>) =
     (Inr (),
      demo_world\<lparr>heap := [Structure (StructureObj ''Structure'' 6), Atoms 5],
         files := (files demo_world)(''traj.pkl'' \<mapsto> demo_dict demo_record),
         trace := [FileWrite ''traj.pkl'']\<rparr>) \<and>
   files demo_world ''traj.pkl'' = Some [] \<and>
   read_back demo_env
     (demo_world\<lparr>heap := [Structure (StructureObj ''Structure'' 6), Atoms 5],
         files := (files demo_world)(''traj.pkl'' \<mapsto> demo_dict demo_record),
         trace := [FileWrite ''traj.pkl'']\<rparr>) ''traj.pkl'' =
     Some [(''energy'', FloatList (energies demo_record)),
           (''forces'', ArrayList (forces demo_record)),
           (''stresses'', ArrayList (stresses demo_record)),
           (''atom_positions'', ArrayList (atom_positions demo_record)),
           (''cell'', ArrayList (cells demo_record)),
           (''atomic_number'', IntArray [29])]"
proof -
  have h1: "\<forall>d. pickle_load demo_env (pickle_dump demo_env d) = Some d"
    by (simp add: demo_env_def)
  have h2: "\<forall>a. length (get_atomic_numbers demo_env a) = atoms_len demo_env a"
    by (simp add: demo_env_def)
  from save_then_read_back[OF h1 h2 demo_save] h1 h2 demo_save show ?thesis
    by (simp add: read_back_def demo_dict_def demo_env_def demo_world_def)
qed

subsection \<open>C4: the result mapping\<close>

text \<open>
  C4 as stated fails in its clause on the type of \<open>final_structure\<close>: \<open>calc\<close> converts back
  with \<open>get_structure(atoms)\<close> and passes no class, so a caller that hands in an object of a
  subclass of \<open>Structure\<close> gets a plain \<open>Structure\<close> back.
\<close>

theorem final_structure_is_plain_structure:
  "heap subclass_world = [Structure (StructureObj ''MyStructure'' 6)] \<and>
   fst (calc demo_env demo_calc 0 subclass_world) = Inr demo_result \<and>
   map_of demo_result ''final_structure'' = Some (VStructure (StructureObj ''Structure'' 4)) \<and>
   class_of (StructureObj ''Structure'' (4::int)) \<noteq> class_of (StructureObj ''MyStructure'' (6::int))"
  by (simp only: demo_run_subclass fst_conv) (simp add: subclass_world_def demo_result_def)

text \<open>
  C4, amended. Whenever \<open>calc\<close> returns, the result has exactly the keys \<open>final_structure\<close>,
  \<open>a\<close>, \<open>b\<close>, \<open>c\<close>, \<open>alpha\<close>, \<open>beta\<close>, \<open>gamma\<close>, \<open>volume\<close>, in this
  order; \<open>final_structure\<close> is a plain \<open>Structure\<close> made from the relaxed atoms, whatever
  the class of the input, and the seven other values are the floats of its lattice. The only
  other outcome is an exception.
\<close>

theorem calc_returns_complete_mapping:
  assumes "calc env self structure w = (Inr d, w')"
  shows "map fst d = [''final_structure'', ''a'', ''b'', ''c'', ''alpha'', ''beta'', ''gamma'',
                      ''volume''] \<and>
         (\<exists>a fs. the_atoms (heap w') (length (heap w)) = Inr a \<and> to_structure env a = Inr fs \<and>
            d = [(''final_structure'', VStructure (StructureObj ''Structure'' fs)),
                 (''a'', VFloat (lat_a (lattice_of env fs))),
                 (''b'', VFloat (lat_b (lattice_of env fs))),
                 (''c'', VFloat (lat_c (lattice_of env fs))),
                 (''alpha'', VFloat (lat_alpha (lattice_of env fs))),
                 (''beta'', VFloat (lat_beta (lattice_of env fs))),
                 (''gamma'', VFloat (lat_gamma (lattice_of env fs))),
                 (''volume'', VFloat (lat_volume (lattice_of env fs)))])"
  using calc_result[OF assms] by auto

theorem calc_returns_complete_mapping_witness:
  "calc demo_env demo_calc 0 demo_world =
     (Inr demo_result,
      demo_world\<lparr>heap := [Structure (StructureObj ''Structure'' 6), Atoms 4],
         files := (files demo_world)(''traj.pkl'' \<mapsto> demo_dict demo_final_record),
         trace := [GetAtoms, SetCalculator, RunBegin, Capture, Capture, Capture,
                   RunEnd, Capture, FileWrite ''traj.pkl'', GetStructure]\<rparr>) \<and>
   map fst demo_result = [''final_structure'', ''a'', ''b'', ''c'', ''alpha'', ''beta'', ''gamma'',
                          ''volume''] \<and>
   map_of demo_result ''final_structure'' = Some (VStructure (StructureObj ''Structure'' 4)) \<and>
   map_of demo_result ''volume'' = Some (VFloat 64)"
  using calc_returns_complete_mapping[OF demo_run] demo_run
  by (simp add: demo_result_def)

subsection \<open>C5: an explicit None optimizer\<close>

text \<open>
  C5. Supplying an explicit \<open>None\<close> optimizer raises a configuration error: the constructor
  raises \<open>ValueError\<close> instead of falling back to the default, and the driver as a whole ends with
  that error in the world it started from, so nothing was converted, computed, printed or written.
\<close>

theorem none_optimizer_rejected:
  "RelaxCalc_init c NoneArg f n t i = Inl (ValueError ''Optimizer cannot be None'') \<and>
   relax env c NoneArg f n t i structure w = (Inl (ValueError ''Optimizer cannot be None''), w)"
  by (simp add: RelaxCalc_init_def relax_def)

subsection \<open>C6: indexing the record\<close>

text \<open>
  C6 as stated fails on the record that a capture leaves when it raises part-way (the one of
  C10): its length is 1, so the index 0 is in its range, but there is no stress at 0 and
  \<open>get(0)\<close> raises \<open>IndexError\<close> instead of returning a snapshot.
\<close>

theorem getitem_fails_in_range_on_partial_record:
  "TrajectoryObserver_len
     (snd (TrajectoryObserver_call no_stress_env [Structure (StructureObj ''Structure'' 6), Atoms 6]
        (TrajectoryObserver_init 1))) = 1 \<and>
   TrajectoryObserver_getitem
     (snd (TrajectoryObserver_call no_stress_env [Structure (StructureObj ''Structure'' 6), Atoms 6]
        (TrajectoryObserver_init 1))) 0 = Inl (IndexError ''list index out of range'')"
  by (simp only: demo_call_no_stress snd_conv)
     (simp add: TrajectoryObserver_len_def TrajectoryObserver_getitem_def list_getitem_def)

text \<open>
  C6, amended. On a record whose five sequences have one length, as every record has that was
  built by captures that returned, \<open>get(index)\<close> returns the snapshot at the index as the tuple
  (energy, forces, stress, cell, positions), a negative index counting from the end as for any
  Python sequence; and on every record, every index outside \<open>-len .. len - 1\<close> raises
  \<open>IndexError\<close>.
\<close>

theorem getitem_returns_snapshot:
  "(record_ok obs \<and> 0 \<le> i \<and> i < int (TrajectoryObserver_len obs) \<longrightarrow>
      TrajectoryObserver_getitem obs i =
        Inr (energies obs ! nat i, forces obs ! nat i, stresses obs ! nat i,
             cells obs ! nat i, atom_positions obs ! nat i)) \<and>
   (record_ok obs \<and> - int (TrajectoryObserver_len obs) \<le> i \<and> i < 0 \<longrightarrow>
      TrajectoryObserver_getitem obs i =
        Inr (energies obs ! nat (i + int (TrajectoryObserver_len obs)),
             forces obs ! nat (i + int (TrajectoryObserver_len obs)),
             stresses obs ! nat (i + int (TrajectoryObserver_len obs)),
             cells obs ! nat (i + int (TrajectoryObserver_len obs)),
             atom_positions obs ! nat (i + int (TrajectoryObserver_len obs)))) \<and>
   (i < - int (TrajectoryObserver_len obs) \<or> int (TrajectoryObserver_len obs) \<le> i \<longrightarrow>
      TrajectoryObserver_getitem obs i = Inl (IndexError ''list index out of range''))"
proof (intro conjI impI)
  assume "i < - int (TrajectoryObserver_len obs) \<or> int (TrajectoryObserver_len obs) \<le> i"
  then have "list_getitem (energies obs) i = Inl (IndexError ''list index out of range'')"
    by (simp add: TrajectoryObserver_len_def list_getitem_out)
  then show "TrajectoryObserver_getitem obs i = Inl (IndexError ''list index out of range'')"
    by (simp add: TrajectoryObserver_getitem_def)
next
  assume "record_ok obs \<and> 0 \<le> i \<and> i < int (TrajectoryObserver_len obs)"
  then show "TrajectoryObserver_getitem obs i =
        Inr (energies obs ! nat i, forces obs ! nat i, stresses obs ! nat i,
             cells obs ! nat i, atom_positions obs ! nat i)"
    by (simp add: record_ok_def TrajectoryObserver_len_def TrajectoryObserver_getitem_def
        list_getitem_in)
next
  assume "record_ok obs \<and> - int (TrajectoryObserver_len obs) \<le> i \<and> i < 0"
  then show "TrajectoryObserver_getitem obs i =
        Inr (energies obs ! nat (i + int (TrajectoryObserver_len obs)),
             forces obs ! nat (i + int (TrajectoryObserver_len obs)),
             stresses obs ! nat (i + int (TrajectoryObserver_len obs)),
             cells obs ! nat (i + int (TrajectoryObserver_len obs)),
             atom_positions obs ! nat (i + int (TrajectoryObserver_len obs)))"
    by (simp add: record_ok_def TrajectoryObserver_len_def TrajectoryObserver_getitem_def
        list_getitem_neg)
qed

theorem getitem_returns_snapshot_witness:
  "record_ok demo_record \<and> TrajectoryObserver_len demo_record = 2 \<and>
   TrajectoryObserver_getitem demo_record 1 =
     Inr (1, Array2 [[0, 0, 0]], Array1 [1, 1, 1, 0, 0, 0],
          Array2 [[5, 0, 0], [0, 5, 0], [0, 0, 5]], Array2 [[0, 0, 0]]) \<and>
   TrajectoryObserver_getitem demo_record (- 2) =
     Inr (4, Array2 [[0, 0, 0]], Array1 [2, 2, 2, 0, 0, 0],
          Array2 [[6, 0, 0], [0, 6, 0], [0, 0, 6]], Array2 [[0, 0, 0]]) \<and>
   TrajectoryObserver_getitem demo_record 2 = Inl (IndexError ''list index out of range'') \<and>
   TrajectoryObserver_getitem demo_record (- 3) = Inl (IndexError ''list index out of range'')"
proof -
  have ok: "record_ok demo_record" by (simp add: record_ok_def demo_record_def)
  have len: "TrajectoryObserver_len demo_record = 2"
    by (simp add: TrajectoryObserver_len_def demo_record_def)
  from getitem_returns_snapshot[of demo_record 1] getitem_returns_snapshot[of demo_record "- 2"]
    getitem_returns_snapshot[of demo_record 2] getitem_returns_snapshot[of demo_record "- 3"]
    ok len
  show ?thesis by (simp add: demo_record_def)
qed

subsection \<open>C7: when the trajectory file is written\<close>

text \<open>
  C7. With no trajectory path, \<open>calc\<close> writes no file, however it ends. With a path \<open>p\<close>,
  either it raised before writing anything, or it wrote exactly once, to \<open>p\<close>, after the
  optimizer run had ended and the last capture was taken and before converting back; and what it
  wrote is the pickled dictionary of the record that the optimizer block handed on, with its
  \<open>k\<close> captures on ticks and the last one. A call that returns is of the second kind.
\<close>

theorem trajectory_written_once_after_run:
  assumes "calc env self structure w = (res, w')"
  shows "\<exists>evs. trace w' = trace w @ evs \<and>
           (traj_file self = None \<longrightarrow> file_writes evs = [] \<and> files w' = files w) \<and>
           (\<forall>p. traj_file self = Some p \<longrightarrow>
              file_writes evs = [] \<and> files w' = files w \<and> (\<forall>d. res \<noteq> Inr d) \<or>
              (\<exists>k obs flt w3 a.
                 redirect_stdout (StringIO []) (relax_block env self (length (heap w)))
                   (snd (set_calculator env (length (heap w)) (calculator self)
                          (snd (get_atoms env structure w)))) = (Inr (obs, flt), w3) \<and>
                 TrajectoryObserver_len obs = k + 1 \<and>
                 the_atoms (heap w3) (length (heap w)) = Inr a \<and>
                 file_writes evs = [p] \<and>
                 evs = [GetAtoms, SetCalculator, RunBegin] @ replicate k Capture @
                         [RunEnd, Capture, FileWrite p, GetStructure] \<and>
                 files w' = (files w)(p \<mapsto>
                   pickle_dump env (trajectory_dict obs (get_atomic_numbers env a)))))"
  by (rule calc_files[OF assms])

theorem trajectory_written_once_after_run_witness:
  "traj_file demo_calc = Some ''traj.pkl'' \<and>
   file_writes (trace (snd (calc demo_env demo_calc 0 demo_world))) = [''traj.pkl''] \<and>
   trace (snd (calc demo_env demo_calc 0 demo_world)) =
     [GetAtoms, SetCalculator, RunBegin] @ replicate 3 Capture @
     [RunEnd, Capture, FileWrite ''traj.pkl'', GetStructure] \<and>
   files (snd (calc demo_env demo_calc 0 demo_world)) =
     (files demo_world)(''traj.pkl'' \<mapsto>
        pickle_dump demo_env (trajectory_dict demo_final_record (get_atomic_numbers demo_env 4))) \<and>
   TrajectoryObserver_len demo_final_record = 3 + 1 \<and>
   traj_file (demo_calc\<lparr>traj_file := None\<rparr>) = None \<and>
   file_writes (trace (snd (calc demo_env (demo_calc\<lparr>traj_file := None\<rparr>) 0 demo_world))) = [] \<and>
   files (snd (calc demo_env (demo_calc\<lparr>traj_file := None\<rparr>) 0 demo_world)) = files demo_world"
  using trajectory_written_once_after_run[OF demo_run]
    trajectory_written_once_after_run[OF demo_run_no_file]
  by (simp only: demo_run demo_run_no_file snd_conv)
     (simp add: demo_calc_def demo_world_def demo_env_def numeral_3_eq_3 demo_dict_def
        trajectory_dict_def TrajectoryObserver_len_def demo_final_record_def)

subsection \<open>C8: the caller's structure\<close>

text \<open>
  C8. Every object that existed before the call, the caller's structure among them, is the same
  after it, however \<open>calc\<close> ends: the conversion makes one new atoms object, and the
  calculator, the optimizer and the observer work on that one only.
\<close>

theorem caller_structure_unchanged:
  "take (length (heap w)) (heap (snd (calc env self structure w))) = heap w \<and>
   heap_lookup (heap (snd (calc env self structure w))) structure = heap_lookup (heap w) structure \<and>
   length (heap (snd (calc env self structure w))) \<le> Suc (length (heap w))"
proof -
  obtain res w' where c: "calc env self structure w = (res, w')" by (metis surj_pair)
  from calc_heap[OF c] have
    le: "length (heap w) \<le> length (heap w')" and le': "length (heap w') \<le> Suc (length (heap w))"
    and same: "\<forall>k<length (heap w). heap w' ! k = heap w ! k"
    and out: "length (heap w) \<le> structure \<longrightarrow> heap w' = heap w"
    by simp_all
  from le same have t: "take (length (heap w)) (heap w') = heap w" by (rule take_unchanged)
  have "heap_lookup (heap w') structure = heap_lookup (heap w) structure"
  proof (cases "structure < length (heap w)")
    case True
    with le same show ?thesis by (simp add: heap_lookup_def)
  next
    case False
    with out show ?thesis by simp
  qed
  with t le' c show ?thesis by simp
qed

text \<open>In the run on the small toolkit the copy shrinks from 6 to 4; the structure stays at 6.\<close>

theorem caller_structure_unchanged_witness:
  "heap demo_world = [Structure (StructureObj ''Structure'' 6)] \<and>
   heap (snd (calc demo_env demo_calc 0 demo_world)) = [Structure (StructureObj ''Structure'' 6), Atoms 4] \<and>
   take (length (heap demo_world)) (heap (snd (calc demo_env demo_calc 0 demo_world))) =
     heap demo_world \<and>
   heap_lookup (heap (snd (calc demo_env demo_calc 0 demo_world))) 0 = Some (Structure (StructureObj ''Structure'' 6))"
  using caller_structure_unchanged[of demo_world demo_env demo_calc 0]
  by (simp only: demo_run snd_conv) (simp add: heap_lookup_def demo_world_def)

subsection \<open>C9: the optimizer's output\<close>

text \<open>
  C9. However \<open>calc\<close> ends, with a result or with an exception at any stage, nothing reached the
  console and \<open>sys.stdout\<close> is what it was before the call: the optimizer's text went to the
  stream, which is dropped.
\<close>

theorem stdout_suppressed_and_restored:
  "console (snd (calc env self structure w)) = console w \<and>
   sys_stdout (snd (calc env self structure w)) = sys_stdout w"
proof -
  obtain res w' where c: "calc env self structure w = (res, w')" by (metis surj_pair)
  from calc_stdout[OF c] c show ?thesis by simp
qed

text \<open>
  The same optimizer block on the console prints three lines (\<open>demo_block\<close>); through
  \<open>calc\<close> it prints none.
\<close>

theorem stdout_suppressed_and_restored_witness:
  "console (snd (relax_block demo_env demo_calc 1 (demo_world\<lparr>heap := [Structure (StructureObj ''Structure'' 6), Atoms 6]\<rparr>))) =
     [''Step 0'', ''Step 1'', ''Step 2''] \<and>
   console (snd (calc demo_env demo_calc 0 demo_world)) = [] \<and>
   sys_stdout (snd (calc demo_env demo_calc 0 demo_world)) = Console"
  using stdout_suppressed_and_restored[of demo_env demo_calc 0 demo_world]
  by (simp only: demo_block demo_run snd_conv) (simp add: demo_world_def)

subsection \<open>C10: one element per capture\<close>

text \<open>
  C10 as stated fails for a capture that raises part-way: with a calculator that has no stress,
  the energy and the forces are appended, then \<open>get_stress\<close> raises, and the five lists have
  the lengths 1, 1, 0, 0, 0.
\<close>

theorem capture_stops_midway:
  "fst (TrajectoryObserver_call no_stress_env [Structure (StructureObj ''Structure'' 6), Atoms 6] (TrajectoryObserver_init 1)) =
     Inl (ExternalError ''PropertyNotImplementedError'') \<and>
   length (energies (snd (TrajectoryObserver_call no_stress_env [Structure (StructureObj ''Structure'' 6), Atoms 6]
      (TrajectoryObserver_init 1)))) = 1 \<and>
   length (forces (snd (TrajectoryObserver_call no_stress_env [Structure (StructureObj ''Structure'' 6), Atoms 6]
      (TrajectoryObserver_init 1)))) = 1 \<and>
   length (stresses (snd (TrajectoryObserver_call no_stress_env [Structure (StructureObj ''Structure'' 6), Atoms 6]
      (TrajectoryObserver_init 1)))) = 0 \<and>
   length (atom_positions (snd (TrajectoryObserver_call no_stress_env [Structure (StructureObj ''Structure'' 6), Atoms 6]
      (TrajectoryObserver_init 1)))) = 0 \<and>
   length (cells (snd (TrajectoryObserver_call no_stress_env [Structure (StructureObj ''Structure'' 6), Atoms 6]
      (TrajectoryObserver_init 1)))) = 0 \<and>
   \<not> record_ok (snd (TrajectoryObserver_call no_stress_env [Structure (StructureObj ''Structure'' 6), Atoms 6]
      (TrajectoryObserver_init 1)))"
  by (simp only: demo_call_no_stress fst_conv snd_conv) (simp add: record_ok_def)

text \<open>
  C10, amended. Every capture that returns appends exactly one element to each of the five
  sequences; so an observer reached from its construction by captures that returned has five
  sequences of one length, which is \<open>length()\<close>.
\<close>

theorem completed_capture_appends_one:
  "(TrajectoryObserver_call env h obs = (Inr u, obs') \<longrightarrow>
      length (energies obs') = length (energies obs) + 1 \<and>
      length (forces obs') = length (forces obs) + 1 \<and>
      length (stresses obs') = length (stresses obs) + 1 \<and>
      length (atom_positions obs') = length (atom_positions obs) + 1 \<and>
      length (cells obs') = length (cells obs) + 1) \<and>
   (reachable env obs \<longrightarrow>
      length (energies obs) = TrajectoryObserver_len obs \<and>
      length (forces obs) = TrajectoryObserver_len obs \<and>
      length (stresses obs) = TrajectoryObserver_len obs \<and>
      length (atom_positions obs) = TrajectoryObserver_len obs \<and>
      length (cells obs) = TrajectoryObserver_len obs)"
proof (intro conjI impI)
  assume "reachable env obs"
  then have "record_ok obs" by (rule reachable_ok)
  then show "length (energies obs) = TrajectoryObserver_len obs"
    "length (forces obs) = TrajectoryObserver_len obs"
    "length (stresses obs) = TrajectoryObserver_len obs"
    "length (atom_positions obs) = TrajectoryObserver_len obs"
    "length (cells obs) = TrajectoryObserver_len obs"
    by (simp_all add: record_ok_def TrajectoryObserver_len_def)
next
  assume c: "TrajectoryObserver_call env h obs = (Inr u, obs')"
  from call_completed[OF c] show "length (energies obs') = length (energies obs) + 1"
    "length (forces obs') = length (forces obs) + 1"
    "length (stresses obs') = length (stresses obs) + 1"
    "length (atom_positions obs') = length (atom_positions obs) + 1"
    "length (cells obs') = length (cells obs) + 1"
    by auto
qed

theorem completed_capture_appends_one_witness:
  "TrajectoryObserver_call demo_env [Structure (StructureObj ''Structure'' 6), Atoms 6] (TrajectoryObserver_init 1) =
     (Inr (), demo_first_record) \<and>
   reachable demo_env demo_first_record \<and>
   length (energies demo_first_record) = length (energies (TrajectoryObserver_init 1)) + 1 \<and>
   length (cells demo_first_record) = length (cells (TrajectoryObserver_init 1)) + 1 \<and>
   TrajectoryObserver_len demo_first_record = 1 \<and>
   length (stresses demo_first_record) = TrajectoryObserver_len demo_first_record"
proof -
  have r: "reachable demo_env demo_first_record"
    by (rule reachable.captured[OF reachable.constructed demo_call])
  from completed_capture_appends_one[of demo_env "[Structure (StructureObj ''Structure'' 6), Atoms 6]"
      "TrajectoryObserver_init 1" "()" demo_first_record]
    completed_capture_appends_one[of demo_env "[Structure (StructureObj ''Structure'' 6), Atoms 6]" demo_first_record]
    demo_call r
  show ?thesis
    by (simp only: simp_thms)
       (simp add: TrajectoryObserver_len_def demo_first_record_def TrajectoryObserver_init_def)
qed

end
